theory Spec2Isabelle
  imports Complex_Main
begin

section \<open>Python values and exceptions\<close>

text \<open>
  The client is Python code on top of the \<^verbatim>\<open>requests\<close> library. Values that travel
  through it (decoded JSON payloads, query parameters, exception arguments) are Python
  values; \<^verbatim>\<open>None\<close> and a decoded JSON \<^verbatim>\<open>null\<close> are the same value, \<open>PNone\<close>.
  A \<^verbatim>\<open>dict\<close> is an association list in insertion order. A \<^verbatim>\<open>float\<close> is the real
  number it stands for: only its being zero or not is ever looked at.
\<close>

datatype pyval =
    PNone
  | PBool bool
  | PInt int
  | PFloat real
  | PStr string
  | PBytes string
  | PList "pyval list"
  | PDict "(string \<times> pyval) list"

text \<open>Python truthiness, as used by \<^verbatim>\<open>or\<close>, \<^verbatim>\<open>and\<close>, \<^verbatim>\<open>not\<close> and \<^verbatim>\<open>if\<close>.\<close>

fun truthy :: "pyval \<Rightarrow> bool" where
  "truthy PNone = False"
| "truthy (PBool b) = b"
| "truthy (PInt i) = (i \<noteq> 0)"
| "truthy (PFloat x) = (x \<noteq> 0)"
| "truthy (PStr s) = (s \<noteq> [])"
| "truthy (PBytes s) = (s \<noteq> [])"
| "truthy (PList xs) = (xs \<noteq> [])"
| "truthy (PDict kvs) = (kvs \<noteq> [])"

text \<open>\<^verbatim>\<open>a or b\<close>: the first operand when it is truthy, else the second.\<close>

definition py_or :: "pyval \<Rightarrow> pyval \<Rightarrow> pyval" where
  "py_or a b = (if truthy a then a else b)"

text \<open>An \<^verbatim>\<open>Optional[str]\<close> argument as a Python value.\<close>

definition opt_str :: "string option \<Rightarrow> pyval" where
  "opt_str x = (case x of None \<Rightarrow> PNone | Some s \<Rightarrow> PStr s)"

text \<open>
  The exception classes of \<^verbatim>\<open>exceptions.py\<close>. Every class derives from
  \<^verbatim>\<open>AenClientError\<close>, so \<^verbatim>\<open>except AenClientError\<close> catches each of them.
\<close>

datatype exn_class =
    AenClientError
  | AuthenticationError
  | PermissionDenied
  | NotFoundError
  | ValidationError
  | ConflictError
  | TransactionError
  | ServerError

text \<open>
  What a call can raise: an exception of the package with its argument; the
  \<^verbatim>\<open>ValueError\<close> of \<^verbatim>\<open>chunked\<close>; and the exceptions of the libraries underneath, which
  the package does not wrap: a transport failure of \<^verbatim>\<open>requests\<close> (timeout, connection
  error), the decoding error of \<^verbatim>\<open>Response.json()\<close>, and the \<^verbatim>\<open>OSError\<close> of \<^verbatim>\<open>open\<close>.
\<close>

datatype exn =
    Raised exn_class pyval
  | ValueError string
  | RequestException string
  | JSONDecodeError
  | OSError string


text \<open>Conversions of typed arguments to Python values.\<close>

definition opt_int :: "int option \<Rightarrow> pyval" where
  "opt_int x = (case x of None \<Rightarrow> PNone | Some i \<Rightarrow> PInt i)"

definition opt_bool :: "bool option \<Rightarrow> pyval" where
  "opt_bool x = (case x of None \<Rightarrow> PNone | Some b \<Rightarrow> PBool b)"

definition str_list :: "string list \<Rightarrow> pyval" where
  "str_list xs = PList (map PStr xs)"

definition opt_str_list :: "string list option \<Rightarrow> pyval" where
  "opt_str_list x = (case x of None \<Rightarrow> PNone | Some xs \<Rightarrow> str_list xs)"

text \<open>\<^verbatim>\<open>a and b\<close>: the first operand when it is falsy, else the second.\<close>

definition py_and :: "pyval \<Rightarrow> pyval \<Rightarrow> pyval" where
  "py_and a b = (if truthy a then b else a)"

text \<open>\<^verbatim>\<open>a or b\<close> on two \<^verbatim>\<open>Optional[str]\<close> values: \<^verbatim>\<open>None\<close> and \<^verbatim>\<open>""\<close> are falsy.\<close>

definition or_str :: "string option \<Rightarrow> string option \<Rightarrow> string option" where
  "or_str a b = (if truthy (opt_str a) then a else b)"

text \<open>\<^verbatim>\<open>d[k] = v\<close> on a dict: an existing key keeps its place, a new key goes last.\<close>

fun dict_set :: "(string \<times> 'v) list \<Rightarrow> string \<Rightarrow> 'v \<Rightarrow> (string \<times> 'v) list" where
  "dict_set [] k v = [(k, v)]"
| "dict_set ((k', v') # d) k v =
     (if k' = k then (k, v) # d else (k', v') # dict_set d k v)"

text \<open>\<^verbatim>\<open>d.get(k)\<close>: the value, or \<^verbatim>\<open>None\<close> for a missing key.\<close>

definition dict_get :: "(string \<times> pyval) list \<Rightarrow> string \<Rightarrow> pyval" where
  "dict_get d k = (case map_of d k of None \<Rightarrow> PNone | Some v \<Rightarrow> v)"

text \<open>
  The headers of a \<^verbatim>\<open>requests.Session\<close> are a case-insensitive dict: a name is looked
  up, removed and replaced by its lower-case form, and an entry keeps the spelling it
  was last set with. \<open>lower\<close> is \<^verbatim>\<open>str.lower()\<close> on the ASCII letters.
\<close>

definition lower_char :: "char \<Rightarrow> char" where
  "lower_char c =
     (let n = (of_char c :: nat) in if 65 \<le> n \<and> n \<le> 90 then char_of (n + 32) else c)"

definition lower :: "string \<Rightarrow> string" where
  "lower s = map lower_char s"

definition header_get :: "(string \<times> string) list \<Rightarrow> string \<Rightarrow> string option" where
  "header_get hs k = map_of (map (\<lambda>kv. (lower (fst kv), snd kv)) hs) (lower k)"

definition header_pop :: "(string \<times> string) list \<Rightarrow> string \<Rightarrow> (string \<times> string) list" where
  "header_pop hs k = filter (\<lambda>kv. lower (fst kv) \<noteq> lower k) hs"

fun header_set ::
  "(string \<times> string) list \<Rightarrow> string \<Rightarrow> string \<Rightarrow> (string \<times> string) list" where
  "header_set [] k v = [(k, v)]"
| "header_set ((k', v') # hs) k v =
     (if lower k' = lower k then (k, v) # hs else (k', v') # header_set hs k v)"

text \<open>\<^verbatim>\<open>str(i)\<close> of an \<^verbatim>\<open>int\<close>: its decimal digits, with a sign when negative.\<close>

fun nat_digits :: "nat \<Rightarrow> string" where
  "nat_digits n =
     (if n < 10 then [''0123456789'' ! n]
      else nat_digits (n div 10) @ [''0123456789'' ! (n mod 10)])"

declare nat_digits.simps [simp del]

definition str_int :: "int \<Rightarrow> string" where
  "str_int i = (if i < 0 then CHR ''-'' # nat_digits (nat (- i)) else nat_digits (nat i))"

text \<open>
  \<^verbatim>\<open>str(v)\<close>, as an f-string applies it: a \<^verbatim>\<open>str\<close> is itself, every other value is
  rendered by its \<^verbatim>\<open>repr\<close>, which belongs to the Python runtime and is a parameter.
\<close>

definition py_str :: "(pyval \<Rightarrow> string) \<Rightarrow> pyval \<Rightarrow> string" where
  "py_str repr_of v = (case v of PStr s \<Rightarrow> s | _ \<Rightarrow> repr_of v)"

section \<open>utils.py\<close>

subsection \<open>build_url\<close>

definition rstrip_slash :: "string \<Rightarrow> string" where
  "rstrip_slash s = rev (dropWhile (\<lambda>c. c = CHR ''/'') (rev s))"

definition lstrip_slash :: "string \<Rightarrow> string" where
  "lstrip_slash s = dropWhile (\<lambda>c. c = CHR ''/'') s"

text \<open>\<^verbatim>\<open>urljoin\<close> is the standard library's and is a parameter.\<close>

definition build_url :: "(string \<Rightarrow> string \<Rightarrow> string) \<Rightarrow> string \<Rightarrow> string \<Rightarrow> string" where
  "build_url join base path = join (rstrip_slash base @ ''/'') (lstrip_slash path)"

subsection \<open>merge_params\<close>

text \<open>The inner loop over \<^verbatim>\<open>m.items()\<close>: a \<^verbatim>\<open>None\<close> value is skipped.\<close>

fun merge_items :: "(string \<times> pyval) list \<Rightarrow> (string \<times> pyval) list \<Rightarrow> (string \<times> pyval) list" where
  "merge_items merged [] = merged"
| "merge_items merged ((k, v) # kvs) =
     (if v = PNone then merge_items merged kvs else merge_items (dict_set merged k v) kvs)"

text \<open>The outer loop over the mappings: \<^verbatim>\<open>None\<close> and the empty mapping are skipped.\<close>

fun merge_loop :: "(string \<times> pyval) list \<Rightarrow> (string \<times> pyval) list option list \<Rightarrow> (string \<times> pyval) list" where
  "merge_loop merged [] = merged"
| "merge_loop merged (m # ms) =
     (case m of
        None \<Rightarrow> merge_loop merged ms
      | Some d \<Rightarrow> if d = [] then merge_loop merged ms else merge_loop (merge_items merged d) ms)"

definition merge_params :: "(string \<times> pyval) list option list \<Rightarrow> (string \<times> pyval) list" where
  "merge_params mappings = merge_loop [] mappings"


subsection \<open>chunked\<close>

text \<open>
  The generator \<^verbatim>\<open>chunked(iterable, size)\<close> over a finite iterable: the list of the
  tuples it yields, or the exception it raises before the first of them. The loop keeps
  the buffer \<^verbatim>\<open>buf\<close>; the final \<^verbatim>\<open>if buf: yield buf\<close> is the \<open>[]\<close> case.
\<close>

fun chunked_loop :: "int \<Rightarrow> 'a list \<Rightarrow> 'a list \<Rightarrow> 'a list list" where
  "chunked_loop sz buf [] = (if buf \<noteq> [] then [buf] else [])"
| "chunked_loop sz buf (item # rest) =
     (let buf' = buf @ [item] in
      if int (length buf') \<ge> sz then buf' # chunked_loop sz [] rest
      else chunked_loop sz buf' rest)"

definition chunked :: "'a list \<Rightarrow> int \<Rightarrow> exn + 'a list list" where
  "chunked iterable sz =
     (if sz \<le> 0 then Inl (ValueError ''size must be > 0'')
      else Inr (chunked_loop sz [] iterable))"

section \<open>The requests library, as the client uses it\<close>

datatype http_method = GET | POST | PUT | DELETE

text \<open>One entry of \<^verbatim>\<open>files=\<close>: form field, file name, file content, MIME type.\<close>

record upload =
  up_field :: string
  up_filename :: string
  up_data :: string
  up_mime :: "string option"

text \<open>
  A cookie as the jar of a session keeps it: name and value, and the domain and path
  it is scoped to (those of the \<^verbatim>\<open>Set-Cookie\<close> header, or the defaults the library
  derives from the URL of the request that was answered).
\<close>

record cookie =
  ck_name :: string
  ck_value :: string
  ck_domain :: string
  ck_path :: string

text \<open>
  What \<^verbatim>\<open>Session.get/post/put/delete\<close> sends: the arguments of the call, with the
  headers of the session, the cookies of its jar that apply to the URL, and the
  credentials the library settles on. \<^verbatim>\<open>auth\<close> is the pair handed to
  \<^verbatim>\<open>HTTPBasicAuth\<close>.
\<close>

record request =
  req_method :: http_method
  req_url :: string
  req_params :: "(string \<times> pyval) list option"
  req_headers :: "(string \<times> string) list"
  req_auth :: "(string option \<times> string option) option"
  req_cookies :: "(string \<times> string) list"
  req_json :: "pyval option"
  req_files :: "upload option"
  req_timeout :: int
  req_stream :: bool

text \<open>
  A \<^verbatim>\<open>Response\<close>: \<^verbatim>\<open>status_code\<close>, \<^verbatim>\<open>content\<close> (the body's bytes), \<^verbatim>\<open>text\<close> (the body
  decoded, here \<open>body_text\<close>), the outcome of \<^verbatim>\<open>json()\<close> (here \<open>json_body\<close>, \<open>None\<close> when
  decoding raises), and the cookies the library extracts from its \<^verbatim>\<open>Set-Cookie\<close>
  headers.
\<close>

record response =
  status_code :: int
  content :: string
  body_text :: string
  json_body :: "pyval option"
  set_cookies :: "cookie list"

text \<open>\<^verbatim>\<open>requests.Session\<close>: the state that persists between calls.\<close>

record session =
  headers :: "(string \<times> string) list"
  auth :: "(string option \<times> string option) option"
  cookies :: "cookie list"

section \<open>manager.py: the client and its surroundings\<close>

text \<open>The attributes of an \<^verbatim>\<open>AenClient\<close> instance.\<close>

record client =
  base_url :: string
  username :: "string option"
  password :: "string option"
  service_id :: "string option"
  timeout :: int
  raise_for_status :: bool
  session :: session

text \<open>
  What the client runs against and does not define: the network with the server behind
  it (\<open>transport\<close>: from the server's state and a request to a response or a transport
  failure, and the server's next state), and the library functions \<^verbatim>\<open>urljoin\<close>,
  \<^verbatim>\<open>repr\<close>, \<^verbatim>\<open>open(path, "rb")\<close> (\<open>None\<close> when it raises), \<^verbatim>\<open>mimetypes.guess_type\<close>,
  \<^verbatim>\<open>os.path.basename\<close> and the default headers of a new \<^verbatim>\<open>requests.Session\<close>.
  Two decisions of \<^verbatim>\<open>requests\<close> depend on more than the client gives it and are
  parameters too: whether a cookie of the jar applies to a URL (\<open>cookie_applies\<close>: the
  domain and path match of the cookie policy), and the credentials the library attaches
  on its own to a request that has none (\<open>netrc_auth\<close>: the netrc entry for the URL,
  \<open>None\<close> without one or with \<^verbatim>\<open>trust_env\<close> off; the client never sets \<^verbatim>\<open>trust_env\<close>).
\<close>

record 'w env =
  transport :: "'w \<Rightarrow> request \<Rightarrow> (string + response) \<times> 'w"
  urljoin :: "string \<Rightarrow> string \<Rightarrow> string"
  repr :: "pyval \<Rightarrow> string"
  read_file :: "string \<Rightarrow> string option"
  guess_type :: "string \<Rightarrow> string option"
  basename :: "string \<Rightarrow> string"
  default_headers :: "(string \<times> string) list"
  cookie_applies :: "cookie \<Rightarrow> string \<Rightarrow> bool"
  netrc_auth :: "string \<Rightarrow> (string option \<times> string option) option"

text \<open>
  The state a call runs in: the client instance \<open>self\<close>, the server's state, and the
  record of the transport invocations so far, each with its outcome (what a test
  double of the transport would record).
\<close>

record 'w state =
  self :: client
  server :: 'w
  calls :: "(request \<times> (string + response)) list"

text \<open>
  The cookie jar after a response: each cookie the response sets is stored, in the
  place of a cookie of the same domain, path and name if the jar has one.
\<close>

fun store_cookie :: "cookie list \<Rightarrow> cookie \<Rightarrow> cookie list" where
  "store_cookie [] c = [c]"
| "store_cookie (c' # jar) c =
     (if ck_domain c' = ck_domain c \<and> ck_path c' = ck_path c \<and> ck_name c' = ck_name c
      then c # jar else c' # store_cookie jar c)"

fun update_jar :: "cookie list \<Rightarrow> cookie list \<Rightarrow> cookie list" where
  "update_jar jar [] = jar"
| "update_jar jar (c # cs) = update_jar (store_cookie jar c) cs"

text \<open>The cookies of the jar that go with a request to a URL.\<close>

definition cookies_for :: "'w env \<Rightarrow> cookie list \<Rightarrow> string \<Rightarrow> (string \<times> string) list" where
  "cookies_for env jar url =
     map (\<lambda>c. (ck_name c, ck_value c)) (filter (\<lambda>c. cookie_applies env c url) jar)"

text \<open>
  The request that \<^verbatim>\<open>self.session.get/post/put/delete(url, params=, auth=, json=,
  files=, stream=, timeout=self.timeout)\<close> prepares, as \<^verbatim>\<open>Session.prepare_request\<close>
  does: it carries the session's headers and the cookies of the jar that apply to the
  URL. For the credentials, an \<^verbatim>\<open>auth=\<close> of the call is used for this request only;
  when the call gives none and the session stores none, the library looks in netrc;
  what is still missing is taken from the stored auth of the session.
\<close>

definition prepare_request ::
  "'w env \<Rightarrow> 'w state \<Rightarrow> http_method \<Rightarrow> string \<Rightarrow> (string \<times> pyval) list option \<Rightarrow>
   (string option \<times> string option) option \<Rightarrow> pyval option \<Rightarrow> upload option \<Rightarrow> bool \<Rightarrow>
   request" where
  "prepare_request env st m url params auth_arg js files stream =
     (let found = (if auth_arg = None \<and> auth (session (self st)) = None
                   then netrc_auth env url else auth_arg)
      in \<lparr>req_method = m, req_url = url, req_params = params,
          req_headers = headers (session (self st)),
          req_auth = (case found of Some a \<Rightarrow> Some a | None \<Rightarrow> auth (session (self st))),
          req_cookies = cookies_for env (cookies (session (self st))) url,
          req_json = js, req_files = files,
          req_timeout = timeout (self st), req_stream = stream\<rparr>)"

text \<open>
  The call itself. The invocation of the transport is recorded. A transport failure is
  raised to the caller; otherwise the response's cookies go into the jar and the
  response is returned.
\<close>

definition session_request ::
  "'w env \<Rightarrow> http_method \<Rightarrow> string \<Rightarrow> (string \<times> pyval) list option \<Rightarrow>
   (string option \<times> string option) option \<Rightarrow> pyval option \<Rightarrow> upload option \<Rightarrow> bool \<Rightarrow>
   'w state \<Rightarrow> (exn + response) \<times> 'w state" where
  "session_request env m url params auth_arg js files stream st =
     (let req = prepare_request env st m url params auth_arg js files stream;
          sent = transport env (server st) req;
          st' = st\<lparr>server := snd sent, calls := calls st @ [(req, fst sent)]\<rparr>
      in case fst sent of
           Inl failure \<Rightarrow> (Inl (RequestException failure), st')
         | Inr resp \<Rightarrow>
             (Inr resp,
              st'\<lparr>self := (self st)\<lparr>session := (session (self st))\<lparr>cookies :=
                     update_jar (cookies (session (self st))) (set_cookies resp)\<rparr>\<rparr>\<rparr>))"

subsection \<open>__init__\<close>

definition init ::
  "'w env \<Rightarrow> string \<Rightarrow> string option \<Rightarrow> string option \<Rightarrow> string option \<Rightarrow> int \<Rightarrow> string \<Rightarrow>
   bool \<Rightarrow> client" where
  "init env base_url_arg username_arg password_arg service_id_arg timeout_arg user_agent
        raise_for_status_arg =
     \<lparr>base_url = rstrip_slash base_url_arg,
      username = username_arg,
      password = password_arg,
      service_id = service_id_arg,
      timeout = timeout_arg,
      raise_for_status = raise_for_status_arg,
      session = \<lparr>headers = header_set (header_set (default_headers env)
                                  ''Accept'' ''application/json'') ''User-Agent'' user_agent,
                 auth = None,
                 cookies = []\<rparr>\<rparr>"

subsection \<open>Internal helpers\<close>

text \<open>
  \<^verbatim>\<open>_extract_error_message\<close>. \<^verbatim>\<open>resp.json()\<close> runs inside \<^verbatim>\<open>try\<close>; when it raises, and
  when the decoded value is not a \<^verbatim>\<open>dict\<close>, control reaches \<^verbatim>\<open>resp.text or None\<close>.
  For a \<^verbatim>\<open>dict\<close> the function returns from inside the \<^verbatim>\<open>if\<close>.
\<close>

definition extract_error_message :: "response \<Rightarrow> pyval" where
  "extract_error_message resp =
     (case json_body resp of
        Some (PDict data) \<Rightarrow>
          py_or (py_or (dict_get data ''message'') (dict_get data ''error''))
                (dict_get data ''detail'')
      | _ \<Rightarrow> py_or (PStr (body_text resp)) PNone)"

text \<open>\<^verbatim>\<open>_raise_api_error\<close>: what the call raises, \<open>Inr ()\<close> if it returned.\<close>

definition raise_api_error :: "'w env \<Rightarrow> response \<Rightarrow> exn + unit" where
  "raise_api_error env resp =
     (let status = status_code resp;
          msg = extract_error_message resp
      in if status = 401 \<or> status = 403 then
           Inl (Raised PermissionDenied
                 (py_or msg (PStr ''Permission denied / authentication required'')))
         else if status = 404 then
           Inl (Raised NotFoundError (py_or msg (PStr ''Resource not found'')))
         else if status = 409 then
           Inl (Raised ConflictError (py_or msg (PStr ''Conflict'')))
         else if status = 400 \<or> status = 405 then
           Inl (Raised ValidationError (py_or msg (PStr ''Validation error'')))
         else if status \<ge> 500 then
           Inl (Raised ServerError (py_or msg (PStr ''Server error'')))
         else
           Inl (Raised AenClientError
                 (PStr (''HTTP '' @ str_int status @ '': '' @
                        py_str (repr env) (py_or msg (PStr ''Unexpected error''))))))"

text \<open>
  A statement that raises or falls through, followed by \<^verbatim>\<open>return v\<close> (or by the end of
  the function, which returns \<^verbatim>\<open>None\<close>).
\<close>

definition then_return :: "exn + unit \<Rightarrow> pyval \<Rightarrow> exn + pyval" where
  "then_return r v = (case r of Inl e \<Rightarrow> Inl e | Inr _ \<Rightarrow> Inr v)"

text \<open>\<^verbatim>\<open>_json_or_error\<close>. Outside \<^verbatim>\<open>try\<close>, a decoding error of \<^verbatim>\<open>resp.json()\<close> propagates.\<close>

definition json_or_error :: "'w env \<Rightarrow> response \<Rightarrow> exn + pyval" where
  "json_or_error env resp =
     (if 200 \<le> status_code resp \<and> status_code resp < 300 then
        (if content resp = [] then Inr PNone
         else (case json_body resp of None \<Rightarrow> Inl JSONDecodeError | Some v \<Rightarrow> Inr v))
      else then_return (raise_api_error env resp) PNone)"

text \<open>\<^verbatim>\<open>_text_or_error\<close>.\<close>

definition text_or_error :: "'w env \<Rightarrow> response \<Rightarrow> exn + pyval" where
  "text_or_error env resp =
     (if 200 \<le> status_code resp \<and> status_code resp < 300 then Inr (PStr (body_text resp))
      else then_return (raise_api_error env resp) PNone)"

text \<open>The recurring statement \<^verbatim>\<open>if resp.status_code != 200: self._raise_api_error(resp)\<close>.\<close>

definition raise_unless_200 :: "'w env \<Rightarrow> response \<Rightarrow> exn + unit" where
  "raise_unless_200 env resp =
     (if status_code resp \<noteq> 200 then raise_api_error env resp else Inr ())"

text \<open>
  A call of the session followed by statements on its response: an exception of the
  call propagates, otherwise the statements decide the result.
\<close>

definition on_response ::
  "(exn + response) \<times> 'w state \<Rightarrow> (response \<Rightarrow> exn + pyval) \<Rightarrow> (exn + pyval) \<times> 'w state" where
  "on_response sent handler =
     (case fst sent of
        Inl e \<Rightarrow> (Inl e, snd sent)
      | Inr resp \<Rightarrow> (handler resp, snd sent))"

text \<open>\<^verbatim>\<open>build_url(self.base_url, path)\<close>.\<close>

definition url_of :: "'w env \<Rightarrow> 'w state \<Rightarrow> string \<Rightarrow> string" where
  "url_of env st path = build_url (urljoin env) (base_url (self st)) path"

subsection \<open>Auth lifecycle\<close>

definition login ::
  "'w env \<Rightarrow> string option \<Rightarrow> string option \<Rightarrow> string option \<Rightarrow> 'w state \<Rightarrow>
   (exn + pyval) \<times> 'w state" where
  "login env username_arg password_arg service_id_arg st =
     (let user = or_str username_arg (username (self st));
          pwd = or_str password_arg (password (self st))
      in if \<not> truthy (py_and (opt_str user) (opt_str pwd)) then
           (Inl (Raised AuthenticationError
                  (PStr ''username and password are required for login'')), st)
         else
           let params0 = [];
               sid = (if service_id_arg \<noteq> None then service_id_arg
                      else service_id (self st));
               params = (if truthy (opt_str sid)
                         then dict_set params0 ''service_id'' (opt_str sid) else params0);
               url = url_of env st ''/user/login'';
               sent = session_request env GET url
                        (if params \<noteq> [] then Some params else None)
                        (Some (user, pwd)) None None False st
           in case fst sent of
                Inl e \<Rightarrow> (Inl e, snd sent)
              | Inr resp \<Rightarrow>
                  (case raise_unless_200 env resp of
                     Inl e \<Rightarrow> (Inl e, snd sent)
                   | Inr _ \<Rightarrow>
                       (Inr PNone,
                        (snd sent)\<lparr>self := (self (snd sent))\<lparr>session :=
                           (session (self (snd sent)))\<lparr>auth := None\<rparr>\<rparr>\<rparr>)))"

definition logout :: "'w env \<Rightarrow> 'w state \<Rightarrow> (exn + pyval) \<times> 'w state" where
  "logout env st =
     (let url = url_of env st ''/user/logout'';
          sent = session_request env GET url None None None None False st
      in case fst sent of
           Inl e \<Rightarrow> (Inl e, snd sent)
         | Inr resp \<Rightarrow>
             (case raise_unless_200 env resp of
                Inl e \<Rightarrow> (Inl e, snd sent)
              | Inr _ \<Rightarrow>
                  (Inr PNone,
                   (snd sent)\<lparr>self := (self (snd sent))\<lparr>session :=
                      (session (self (snd sent)))\<lparr>cookies := []\<rparr>\<rparr>\<rparr>)))"

subsection \<open>Objects\<close>

text \<open>\<^verbatim>\<open>{"view": view} if view else None\<close>.\<close>

definition view_params :: "string option \<Rightarrow> (string \<times> pyval) list option" where
  "view_params view =
     (if truthy (opt_str view) then Some [(''view'', opt_str view)] else None)"

definition get_object ::
  "'w env \<Rightarrow> string \<Rightarrow> string option \<Rightarrow> 'w state \<Rightarrow> (exn + pyval) \<times> 'w state" where
  "get_object env object_id view st =
     on_response
       (session_request env GET (url_of env st (''/object/'' @ object_id))
          (view_params view) None None None False st)
       (json_or_error env)"

definition create_object ::
  "'w env \<Rightarrow> string \<Rightarrow> string \<Rightarrow> string \<Rightarrow> pyval \<Rightarrow> 'w state \<Rightarrow> (exn + pyval) \<times> 'w state" where
  "create_object env category_id parent_id attribute_name properties st =
     (let params = [(''category_id'', PStr category_id), (''parent_id'', PStr parent_id),
                    (''attribute_name'', PStr attribute_name)];
          body = py_or properties (PList [])
      in on_response
           (session_request env POST (url_of env st ''/object'')
              (Some params) None (Some body) None False st)
           (json_or_error env))"

definition update_object ::
  "'w env \<Rightarrow> string \<Rightarrow> pyval \<Rightarrow> 'w state \<Rightarrow> (exn + pyval) \<times> 'w state" where
  "update_object env object_id properties st =
     (let payload = PDict [(''id'', PStr object_id), (''properties'', properties)]
      in on_response
           (session_request env PUT (url_of env st ''/object'')
              None None (Some payload) None False st)
           (json_or_error env))"

definition delete_object ::
  "'w env \<Rightarrow> string \<Rightarrow> 'w state \<Rightarrow> (exn + pyval) \<times> 'w state" where
  "delete_object env object_id st =
     on_response
       (session_request env DELETE (url_of env st (''/object/'' @ object_id))
          None None None None False st)
       (\<lambda>resp. then_return (raise_unless_200 env resp) PNone)"

definition get_objects ::
  "'w env \<Rightarrow> string list \<Rightarrow> string option \<Rightarrow> 'w state \<Rightarrow> (exn + pyval) \<times> 'w state" where
  "get_objects env object_ids view st =
     (let params0 = [(''object_id'', str_list object_ids)];
          params = (if truthy (opt_str view) then dict_set params0 ''view'' (opt_str view)
                    else params0)
      in on_response
           (session_request env GET (url_of env st ''/objects'')
              (Some params) None None None False st)
           (json_or_error env))"

definition create_objects ::
  "'w env \<Rightarrow> pyval \<Rightarrow> 'w state \<Rightarrow> (exn + pyval) \<times> 'w state" where
  "create_objects env objects st =
     on_response
       (session_request env POST (url_of env st ''/objects'')
          None None (Some objects) None False st)
       (json_or_error env)"

definition update_objects ::
  "'w env \<Rightarrow> pyval \<Rightarrow> 'w state \<Rightarrow> (exn + pyval) \<times> 'w state" where
  "update_objects env objects st =
     on_response
       (session_request env PUT (url_of env st ''/objects'')
          None None (Some (PDict [(''objects'', objects)])) None False st)
       (\<lambda>resp. then_return (raise_unless_200 env resp) PNone)"

definition delete_objects ::
  "'w env \<Rightarrow> string list \<Rightarrow> 'w state \<Rightarrow> (exn + pyval) \<times> 'w state" where
  "delete_objects env object_ids st =
     on_response
       (session_request env DELETE (url_of env st ''/objects'')
          (Some [(''object_id'', str_list object_ids)]) None None None False st)
       (\<lambda>resp. then_return (raise_unless_200 env resp) PNone)"

subsection \<open>Search and queries\<close>

definition search ::
  "'w env \<Rightarrow> string \<Rightarrow> string option \<Rightarrow> string list option \<Rightarrow> string list option \<Rightarrow>
   int option \<Rightarrow> 'w state \<Rightarrow> (exn + pyval) \<times> 'w state" where
  "search env q view attribute_name category_id limit st =
     (let params = merge_params
            [Some [(''q'', PStr q)],
             Some [(''view'', opt_str view)],
             Some [(''attribute_name'', opt_str_list attribute_name)],
             Some [(''category_id'', opt_str_list category_id)],
             Some [(''limit'', opt_int limit)]]
      in on_response
           (session_request env GET (url_of env st ''/search'')
              (Some params) None None None False st)
           (json_or_error env))"

definition search_by_component ::
  "'w env \<Rightarrow> string \<Rightarrow> string list \<Rightarrow> string option \<Rightarrow> 'w state \<Rightarrow>
   (exn + pyval) \<times> 'w state" where
  "search_by_component env component_id object_id view st =
     (let params = [(''object_id'', str_list object_id), (''view'', opt_str view)]
      in on_response
           (session_request env GET (url_of env st (''/search/'' @ component_id))
              (Some params) None None None False st)
           (json_or_error env))"

definition get_object_query_result ::
  "'w env \<Rightarrow> string \<Rightarrow> string \<Rightarrow> string option \<Rightarrow> 'w state \<Rightarrow> (exn + pyval) \<times> 'w state" where
  "get_object_query_result env object_id query_id view st =
     on_response
       (session_request env GET
          (url_of env st (''/object/'' @ object_id @ ''/query/'' @ query_id))
          (view_params view) None None None False st)
       (json_or_error env)"

definition get_objects_query_result ::
  "'w env \<Rightarrow> string \<Rightarrow> string list \<Rightarrow> string option \<Rightarrow> 'w state \<Rightarrow>
   (exn + pyval) \<times> 'w state" where
  "get_objects_query_result env query_id object_ids view st =
     (let params = [(''object_id'', str_list object_ids), (''view'', opt_str view)]
      in on_response
           (session_request env GET (url_of env st (''/objects/query/'' @ query_id))
              (Some params) None None None False st)
           (json_or_error env))"

subsection \<open>Files on objects\<close>

text \<open>
  \<^verbatim>\<open>list_files\<close>. The \<^verbatim>\<open>except AenClientError\<close> clause catches every exception of the
  package raised inside \<^verbatim>\<open>try\<close>; other exceptions propagate. In the handler, status
  405 returns \<^verbatim>\<open>[]\<close>; for any other status the handler ends without \<^verbatim>\<open>return\<close> or
  \<^verbatim>\<open>raise\<close>, so the function returns \<^verbatim>\<open>None\<close>.
\<close>

definition list_files ::
  "'w env \<Rightarrow> string \<Rightarrow> 'w state \<Rightarrow> (exn + pyval) \<times> 'w state" where
  "list_files env object_id st =
     (let url = url_of env st (''/object/'' @ object_id @ ''/file/'');
          sent = session_request env GET url None None None None False st
      in case fst sent of
           Inl e \<Rightarrow> (Inl e, snd sent)
         | Inr resp \<Rightarrow>
             (case json_or_error env resp of
                Inl (Raised c m) \<Rightarrow>
                  (if status_code resp = 405 then (Inr (PList []), snd sent)
                   else (Inr PNone, snd sent))
              | Inl e \<Rightarrow> (Inl e, snd sent)
              | Inr v \<Rightarrow> (Inr v, snd sent)))"

definition get_file ::
  "'w env \<Rightarrow> string \<Rightarrow> string \<Rightarrow> string option \<Rightarrow> int option \<Rightarrow> 'w state \<Rightarrow>
   (exn + pyval) \<times> 'w state" where
  "get_file env object_id filename attribute_name position st =
     (let url = url_of env st (''/object/'' @ object_id @ ''/file/'' @ filename);
          params = merge_params [Some [(''attribute_name'', opt_str attribute_name)],
                                 Some [(''position'', opt_int position)]]
      in on_response
           (session_request env GET url (Some params) None None None False st)
           (json_or_error env))"

definition download_file_content ::
  "'w env \<Rightarrow> string \<Rightarrow> string \<Rightarrow> string option \<Rightarrow> int option \<Rightarrow> 'w state \<Rightarrow>
   (exn + pyval) \<times> 'w state" where
  "download_file_content env object_id filename attribute_name position st =
     (let url = url_of env st (''/object/'' @ object_id @ ''/file/'' @ filename @ ''/content'');
          params = merge_params [Some [(''attribute_name'', opt_str attribute_name)],
                                 Some [(''position'', opt_int position)]]
      in on_response
           (session_request env GET url (Some params) None None None True st)
           (\<lambda>resp. then_return (raise_unless_200 env resp) (PBytes (content resp))))"

text \<open>\<^verbatim>\<open>self.session.headers.pop('Content-Type', None)\<close>.\<close>

definition pop_content_type :: "'w state \<Rightarrow> 'w state" where
  "pop_content_type st =
     st\<lparr>self := (self st)\<lparr>session := (session (self st))\<lparr>headers :=
          header_pop (headers (session (self st))) ''Content-Type''\<rparr>\<rparr>\<rparr>"

text \<open>The \<^verbatim>\<open>finally\<close> block of \<^verbatim>\<open>upload_file\<close> and \<^verbatim>\<open>update_file\<close>.\<close>

definition restore_content_type :: "string option \<Rightarrow> 'w state \<Rightarrow> 'w state" where
  "restore_content_type original st =
     (case original of
        None \<Rightarrow> st
      | Some ct \<Rightarrow>
          st\<lparr>self := (self st)\<lparr>session := (session (self st))\<lparr>headers :=
               header_set (headers (session (self st))) ''Content-Type'' ct\<rparr>\<rparr>\<rparr>)"

text \<open>
  The common body of \<^verbatim>\<open>upload_file\<close> (POST) and \<^verbatim>\<open>update_file\<close> (PUT) after the query
  parameters are built: the two methods differ in the HTTP method and in the
  \<^verbatim>\<open>position\<close> parameter only.
\<close>

definition send_file ::
  "'w env \<Rightarrow> http_method \<Rightarrow> string \<Rightarrow> string \<Rightarrow> (string \<times> pyval) list \<Rightarrow> string option \<Rightarrow>
   'w state \<Rightarrow> (exn + pyval) \<times> 'w state" where
  "send_file env m object_id file_path params filename st =
     (let url = url_of env st (''/object/'' @ object_id @ ''/file'');
          actual_filename = (case or_str filename (Some (basename env file_path)) of
                               Some n \<Rightarrow> n | None \<Rightarrow> []);
          mime_type = (case guess_type env file_path of
                         None \<Rightarrow> ''application/octet-stream'' | Some t \<Rightarrow> t);
          original_content_type = header_get (headers (session (self st))) ''Content-Type'';
          st1 = pop_content_type st
      in case read_file env file_path of
           None \<Rightarrow> (Inl (OSError file_path), restore_content_type original_content_type st1)
         | Some file_handle \<Rightarrow>
             (let files = \<lparr>up_field = ''file'', up_filename = actual_filename,
                           up_data = file_handle, up_mime = Some mime_type\<rparr>;
                  sent = session_request env m url
                           (if params \<noteq> [] then Some params else None)
                           None None (Some files) False st1
              in case fst sent of
                   Inl e \<Rightarrow> (Inl e, restore_content_type original_content_type (snd sent))
                 | Inr resp \<Rightarrow>
                     (then_return (raise_unless_200 env resp) PNone,
                      restore_content_type original_content_type (snd sent))))"

text \<open>
  \<^verbatim>\<open>upload_file\<close>. The source as written does not define it: the line
  \<^verbatim>\<open>def upload_file(\<close> stands one indentation step too deep, at the level of the body
  of \<^verbatim>\<open>download_file_content\<close> and of its own body, so \<^verbatim>\<open>manager.py\<close> does not parse
  there. The definition below embeds the body under the one repair that the first
  parameter \<^verbatim>\<open>self\<close>, the use of \<^verbatim>\<open>self.session\<close> in the body and the sibling
  \<^verbatim>\<open>update_file\<close> point to: the \<^verbatim>\<open>def\<close> line moved one step to the left, which makes
  \<^verbatim>\<open>upload_file\<close> a method of the class. Every other function is embedded from its
  own text.
\<close>

definition upload_file ::
  "'w env \<Rightarrow> string \<Rightarrow> string \<Rightarrow> string option \<Rightarrow> string option \<Rightarrow> 'w state \<Rightarrow>
   (exn + pyval) \<times> 'w state" where
  "upload_file env object_id file_path attribute_name filename st =
     (let params0 = [];
          params1 = (if attribute_name \<noteq> None
                     then dict_set params0 ''attribute_name'' (opt_str attribute_name)
                     else params0);
          params2 = (if filename \<noteq> None
                     then dict_set params1 ''filename'' (opt_str filename) else params1)
      in send_file env POST object_id file_path params2 filename st)"

definition update_file ::
  "'w env \<Rightarrow> string \<Rightarrow> string \<Rightarrow> string option \<Rightarrow> string option \<Rightarrow> int option \<Rightarrow> 'w state \<Rightarrow>
   (exn + pyval) \<times> 'w state" where
  "update_file env object_id file_path attribute_name filename position st =
     (let params0 = [];
          params1 = (if attribute_name \<noteq> None
                     then dict_set params0 ''attribute_name'' (opt_str attribute_name)
                     else params0);
          params2 = (if filename \<noteq> None
                     then dict_set params1 ''filename'' (opt_str filename) else params1);
          params3 = (if position \<noteq> None
                     then dict_set params2 ''position'' (opt_int position) else params2)
      in send_file env PUT object_id file_path params3 filename st)"

definition delete_file ::
  "'w env \<Rightarrow> string \<Rightarrow> string option \<Rightarrow> string option \<Rightarrow> int option \<Rightarrow> 'w state \<Rightarrow>
   (exn + pyval) \<times> 'w state" where
  "delete_file env object_id filename attribute_name position st =
     (let url = url_of env st (''/object/'' @ object_id @ ''/file'');
          params = merge_params [Some [(''filename'', opt_str filename)],
                                 Some [(''attribute_name'', opt_str attribute_name)],
                                 Some [(''position'', opt_int position)]]
      in on_response
           (session_request env DELETE url (Some params) None None None False st)
           (\<lambda>resp. then_return (raise_unless_200 env resp) PNone))"

subsection \<open>Object versioning and view switching\<close>

definition to_version_by_id ::
  "'w env \<Rightarrow> string \<Rightarrow> string \<Rightarrow> 'w state \<Rightarrow> (exn + pyval) \<times> 'w state" where
  "to_version_by_id env object_id version_id st =
     on_response
       (session_request env POST
          (url_of env st (''/object/'' @ object_id @ ''/to-version-by-id/'' @ version_id))
          None None None None False st)
       (\<lambda>resp. then_return (raise_unless_200 env resp) PNone)"

definition to_version_by_date ::
  "'w env \<Rightarrow> string \<Rightarrow> string \<Rightarrow> 'w state \<Rightarrow> (exn + pyval) \<times> 'w state" where
  "to_version_by_date env object_id date_iso st =
     on_response
       (session_request env POST
          (url_of env st (''/object/'' @ object_id @ ''/to-version-by-date/'' @ date_iso))
          None None None None False st)
       (\<lambda>resp. then_return (raise_unless_200 env resp) PNone)"

definition switch_to_draft :: "'w env \<Rightarrow> 'w state \<Rightarrow> (exn + pyval) \<times> 'w state" where
  "switch_to_draft env st =
     on_response
       (session_request env GET (url_of env st ''/session/versions/to-draft'')
          None None None None False st)
       (json_or_error env)"

definition switch_to_release :: "'w env \<Rightarrow> 'w state \<Rightarrow> (exn + pyval) \<times> 'w state" where
  "switch_to_release env st =
     on_response
       (session_request env GET (url_of env st ''/session/versions/to-release'')
          None None None None False st)
       (json_or_error env)"

subsection \<open>Locale\<close>

definition get_locale :: "'w env \<Rightarrow> 'w state \<Rightarrow> (exn + pyval) \<times> 'w state" where
  "get_locale env st =
     on_response
       (session_request env GET (url_of env st ''/session/locale'')
          None None None None False st)
       (text_or_error env)"

definition get_locales :: "'w env \<Rightarrow> 'w state \<Rightarrow> (exn + pyval) \<times> 'w state" where
  "get_locales env st =
     on_response
       (session_request env GET (url_of env st ''/session/locales'')
          None None None None False st)
       (json_or_error env)"

definition set_locale :: "'w env \<Rightarrow> string \<Rightarrow> 'w state \<Rightarrow> (exn + pyval) \<times> 'w state" where
  "set_locale env language_tag st =
     on_response
       (session_request env PUT (url_of env st (''/session/locale/'' @ language_tag))
          None None None None False st)
       (\<lambda>resp. then_return (raise_unless_200 env resp) PNone)"

subsection \<open>Transactions\<close>

definition begin_transaction :: "'w env \<Rightarrow> 'w state \<Rightarrow> (exn + pyval) \<times> 'w state" where
  "begin_transaction env st =
     on_response
       (session_request env PUT (url_of env st ''/session/transaction/begin'')
          None None None None False st)
       (\<lambda>resp.
          if status_code resp = 409 then
            Inl (Raised ConflictError
                  (PStr ''A transaction is already open. Commit or rollback first.''))
          else then_return (raise_unless_200 env resp) PNone)"

definition commit_transaction :: "'w env \<Rightarrow> 'w state \<Rightarrow> (exn + pyval) \<times> 'w state" where
  "commit_transaction env st =
     on_response
       (session_request env PUT (url_of env st ''/session/transaction/commit'')
          None None None None False st)
       (\<lambda>resp.
          if status_code resp = 409 then
            Inl (Raised TransactionError (PStr ''No open transaction to commit.''))
          else then_return (raise_unless_200 env resp) PNone)"

definition rollback_transaction :: "'w env \<Rightarrow> 'w state \<Rightarrow> (exn + pyval) \<times> 'w state" where
  "rollback_transaction env st =
     on_response
       (session_request env PUT (url_of env st ''/session/transaction/rollback'')
          None None None None False st)
       (\<lambda>resp.
          if status_code resp = 409 then
            Inl (Raised TransactionError (PStr ''No open transaction to rollback.''))
          else then_return (raise_unless_200 env resp) PNone)"

subsection \<open>Upload directory\<close>

definition upload_to_appdir ::
  "'w env \<Rightarrow> string \<Rightarrow> string option \<Rightarrow> bool option \<Rightarrow> 'w state \<Rightarrow>
   (exn + pyval) \<times> 'w state" where
  "upload_to_appdir env file_path folder overwrite st =
     (let url = url_of env st ''/upload/file'';
          params = merge_params [Some [(''folder'', opt_str folder)],
                                 Some [(''overwrite'', opt_bool overwrite)]]
      in case read_file env file_path of
           None \<Rightarrow> (Inl (OSError file_path), st)
         | Some f \<Rightarrow>
             (let files = \<lparr>up_field = ''file'', up_filename = file_path, up_data = f,
                           up_mime = None\<rparr>
              in on_response
                   (session_request env POST url (Some params) None None (Some files) False st)
                   (\<lambda>resp. then_return (raise_unless_200 env resp) PNone)))"

definition download_from_appdir ::
  "'w env \<Rightarrow> string \<Rightarrow> string option \<Rightarrow> 'w state \<Rightarrow> (exn + pyval) \<times> 'w state" where
  "download_from_appdir env name folder st =
     (let url = url_of env st ''/upload/file'';
          params = merge_params [Some [(''name'', PStr name)],
                                 Some [(''folder'', opt_str folder)]]
      in on_response
           (session_request env GET url (Some params) None None None True st)
           (\<lambda>resp.
              if status_code resp = 404 then
                Inl (Raised NotFoundError
                      (PStr (''File '' @ [CHR 0x27] @ name @ [CHR 0x27] @ '' not found in appdir'')))
              else then_return (raise_unless_200 env resp) (PBytes (content resp))))"

section \<open>The public operations as one interface\<close>

text \<open>A call of a public method of \<^verbatim>\<open>AenClient\<close> with its arguments.\<close>

datatype operation =
    Login "string option" "string option" "string option"
  | Logout
  | GetObject string "string option"
  | CreateObject string string string pyval
  | UpdateObject string pyval
  | DeleteObject string
  | GetObjects "string list" "string option"
  | CreateObjects pyval
  | UpdateObjects pyval
  | DeleteObjects "string list"
  | Search string "string option" "string list option" "string list option" "int option"
  | SearchByComponent string "string list" "string option"
  | GetObjectQueryResult string string "string option"
  | GetObjectsQueryResult string "string list" "string option"
  | ListFiles string
  | GetFile string string "string option" "int option"
  | DownloadFileContent string string "string option" "int option"
  | UploadFile string string "string option" "string option"
  | UpdateFile string string "string option" "string option" "int option"
  | DeleteFile string "string option" "string option" "int option"
  | ToVersionById string string
  | ToVersionByDate string string
  | SwitchToDraft
  | SwitchToRelease
  | GetLocale
  | GetLocales
  | SetLocale string
  | BeginTransaction
  | CommitTransaction
  | RollbackTransaction
  | UploadToAppdir string "string option" "bool option"
  | DownloadFromAppdir string "string option"

primrec run :: "'w env \<Rightarrow> operation \<Rightarrow> 'w state \<Rightarrow> (exn + pyval) \<times> 'w state" where
  "run env (Login u p sid) st = login env u p sid st"
| "run env Logout st = logout env st"
| "run env (GetObject oid view) st = get_object env oid view st"
| "run env (CreateObject cat par attr props) st = create_object env cat par attr props st"
| "run env (UpdateObject oid props) st = update_object env oid props st"
| "run env (DeleteObject oid) st = delete_object env oid st"
| "run env (GetObjects oids view) st = get_objects env oids view st"
| "run env (CreateObjects objs) st = create_objects env objs st"
| "run env (UpdateObjects objs) st = update_objects env objs st"
| "run env (DeleteObjects oids) st = delete_objects env oids st"
| "run env (Search q view attr cat limit) st = search env q view attr cat limit st"
| "run env (SearchByComponent cid oids view) st = search_by_component env cid oids view st"
| "run env (GetObjectQueryResult oid qid view) st = get_object_query_result env oid qid view st"
| "run env (GetObjectsQueryResult qid oids view) st =
     get_objects_query_result env qid oids view st"
| "run env (ListFiles oid) st = list_files env oid st"
| "run env (GetFile oid fname attr pos) st = get_file env oid fname attr pos st"
| "run env (DownloadFileContent oid fname attr pos) st =
     download_file_content env oid fname attr pos st"
| "run env (UploadFile oid path attr fname) st = upload_file env oid path attr fname st"
| "run env (UpdateFile oid path attr fname pos) st = update_file env oid path attr fname pos st"
| "run env (DeleteFile oid fname attr pos) st = delete_file env oid fname attr pos st"
| "run env (ToVersionById oid vid) st = to_version_by_id env oid vid st"
| "run env (ToVersionByDate oid d) st = to_version_by_date env oid d st"
| "run env SwitchToDraft st = switch_to_draft env st"
| "run env SwitchToRelease st = switch_to_release env st"
| "run env GetLocale st = get_locale env st"
| "run env GetLocales st = get_locales env st"
| "run env (SetLocale tag) st = set_locale env tag st"
| "run env BeginTransaction st = begin_transaction env st"
| "run env CommitTransaction st = commit_transaction env st"
| "run env RollbackTransaction st = rollback_transaction env st"
| "run env (UploadToAppdir path folder ow) st = upload_to_appdir env path folder ow st"
| "run env (DownloadFromAppdir name folder) st = download_from_appdir env name folder st"



text \<open>
  The methods whose last statement hands the response to \<^verbatim>\<open>_json_or_error\<close>; the
  method that hands it to \<^verbatim>\<open>_text_or_error\<close>; and the status codes a method takes for
  success: 200 to 299 for these, 200 alone for the methods that test
  \<^verbatim>\<open>resp.status_code != 200\<close>.
\<close>

definition via_json_or_error :: "operation \<Rightarrow> bool" where
  "via_json_or_error c =
     (case c of
        GetObject _ _ \<Rightarrow> True
      | CreateObject _ _ _ _ \<Rightarrow> True
      | UpdateObject _ _ \<Rightarrow> True
      | GetObjects _ _ \<Rightarrow> True
      | CreateObjects _ \<Rightarrow> True
      | Search _ _ _ _ _ \<Rightarrow> True
      | SearchByComponent _ _ _ \<Rightarrow> True
      | GetObjectQueryResult _ _ _ \<Rightarrow> True
      | GetObjectsQueryResult _ _ _ \<Rightarrow> True
      | ListFiles _ \<Rightarrow> True
      | GetFile _ _ _ _ \<Rightarrow> True
      | SwitchToDraft \<Rightarrow> True
      | SwitchToRelease \<Rightarrow> True
      | GetLocales \<Rightarrow> True
      | _ \<Rightarrow> False)"





definition is_list_files :: "operation \<Rightarrow> bool" where
  "is_list_files c = (case c of ListFiles _ \<Rightarrow> True | _ \<Rightarrow> False)"

section \<open>Test doubles\<close>

text \<open>
  Concrete surroundings for running the client on explicit inputs: library functions
  with fixed simple behaviour around a given transport (a cookie applies to the URLs
  that start with its domain and path; netrc is empty), responses without cookies,
  and a client constructed by \<open>init\<close> in front of a server in a given state.
\<close>

definition stub_env :: "('w \<Rightarrow> request \<Rightarrow> (string + response) \<times> 'w) \<Rightarrow> 'w env" where
  "stub_env t =
     \<lparr>transport = t, urljoin = (\<lambda>b p. b @ p), repr = (\<lambda>v. ''<repr>''),
      read_file = (\<lambda>p. None), guess_type = (\<lambda>p. None), basename = (\<lambda>p. p),
      default_headers = [],
      cookie_applies = (\<lambda>c url. take (length (''http://'' @ ck_domain c @ ck_path c)) url =
                                  ''http://'' @ ck_domain c @ ck_path c),
      netrc_auth = (\<lambda>url. None)\<rparr>"

definition reply :: "int \<Rightarrow> string \<Rightarrow> pyval option \<Rightarrow> response" where
  "reply status body decoded =
     \<lparr>status_code = status, content = body, body_text = body, json_body = decoded,
      set_cookies = []\<rparr>"

text \<open>A transport that answers every request with the same response.\<close>

definition always :: "response \<Rightarrow> unit \<Rightarrow> request \<Rightarrow> (string + response) \<times> unit" where
  "always resp w req = (Inr resp, w)"

definition fresh :: "'w env \<Rightarrow> string option \<Rightarrow> string option \<Rightarrow> 'w \<Rightarrow> 'w state" where
  "fresh env user pwd w =
     \<lparr>self = init env ''http://host/api/'' user pwd None 30 ''aen-client/0.1'' True,
      server = w, calls = []\<rparr>"

text \<open>
  The transaction state of the specification, \<open>Idle\<close> or \<open>Open\<close>, and a server that keeps
  it for its one session: login with the right credentials sets the session cookie;
  without that cookie every other request is answered 401; logout ends the session;
  begin, commit and rollback follow the state and answer 409 when it does not allow
  them.
\<close>

datatype tx_state = Idle | Open

definition demo_cookie :: cookie where
  "demo_cookie =
     \<lparr>ck_name = ''JSESSIONID'', ck_value = ''s1'', ck_domain = ''host'', ck_path = ''/''\<rparr>"

record server_state =
  logged_in :: bool
  tx :: tx_state

definition demo_server :: "server_state \<Rightarrow> request \<Rightarrow> (string + response) \<times> server_state" where
  "demo_server w req =
     (if req_url req = ''http://host/api/user/login'' then
        (if req_auth req = Some (Some ''user'', Some ''pass'')
         then (Inr ((reply 200 [] None)\<lparr>set_cookies := [demo_cookie]\<rparr>),
               w\<lparr>logged_in := True\<rparr>)
         else (Inr (reply 401 [] None), w))
      else if \<not> (logged_in w \<and> map_of (req_cookies req) ''JSESSIONID'' = Some ''s1'') then
        (Inr (reply 401 [] None), w)
      else if req_url req = ''http://host/api/user/logout'' then
        (Inr (reply 200 [] None), w\<lparr>logged_in := False, tx := Idle\<rparr>)
      else if req_url req = ''http://host/api/session/transaction/begin'' then
        (if tx w = Idle then (Inr (reply 200 [] None), w\<lparr>tx := Open\<rparr>)
         else (Inr (reply 409 [] None), w))
      else if req_url req = ''http://host/api/session/transaction/commit''
              \<or> req_url req = ''http://host/api/session/transaction/rollback'' then
        (if tx w = Open then (Inr (reply 200 [] None), w\<lparr>tx := Idle\<rparr>)
         else (Inr (reply 409 [] None), w))
      else (Inr (reply 404 [] None), w))"

definition demo_env :: "server_state env" where
  "demo_env = stub_env demo_server"

definition demo_start :: "server_state state" where
  "demo_start = fresh demo_env (Some ''user'') (Some ''pass'') \<lparr>logged_in = False, tx = Idle\<rparr>"


text \<open>The client after a successful login, and after a successful begin in that state.\<close>

definition demo_logged_in :: "server_state state" where
  "demo_logged_in = snd (login demo_env None None None demo_start)"

definition demo_open :: "server_state state" where
  "demo_open = snd (begin_transaction demo_env demo_logged_in)"

text \<open>The client after a successful login and a successful logout.\<close>

definition demo_logged_out :: "server_state state" where
  "demo_logged_out = snd (logout demo_env demo_logged_in)"

text \<open>
  A server that answers the login with 200 and the session cookie and every other
  request with 204, and the client logged in to it.
\<close>

definition no_content_server :: "unit \<Rightarrow> request \<Rightarrow> (string + response) \<times> unit" where
  "no_content_server w req =
     (if req_url req = ''http://host/api/user/login''
      then (Inr ((reply 200 [] None)\<lparr>set_cookies := [demo_cookie]\<rparr>), w)
      else (Inr (reply 204 [] None), w))"

definition no_content_env :: "unit env" where
  "no_content_env = stub_env no_content_server"

definition no_content_logged_in :: "unit state" where
  "no_content_logged_in =
     snd (login no_content_env (Some ''user'') (Some ''pass'') None
            (fresh no_content_env None None ()))"





section \<open>Properties of chunked\<close>

lemma chunked_loop_concat: "concat (chunked_loop sz buf xs) = buf @ xs"
  by (induction xs arbitrary: buf) (auto simp: Let_def)

lemma chunked_loop_lengths:
  "0 < sz \<Longrightarrow> int (length buf) < sz \<Longrightarrow> c \<in> set (chunked_loop sz buf xs) \<Longrightarrow>
   c \<noteq> [] \<and> int (length c) \<le> sz"
proof (induction xs arbitrary: buf)
  case Nil
  then show ?case by (auto split: if_splits)
next
  case (Cons x xs)
  show ?case
  proof (cases "int (length (buf @ [x])) \<ge> sz")
    case True
    with Cons.prems have "c = buf @ [x] \<or> c \<in> set (chunked_loop sz [] xs)"
      by (simp add: Let_def)
    then show ?thesis
    proof
      assume "c = buf @ [x]"
      with Cons.prems(2) show ?thesis by simp
    next
      assume "c \<in> set (chunked_loop sz [] xs)"
      with Cons.IH[of "[]"] Cons.prems(1) show ?thesis by simp
    qed
  next
    case False
    with Cons.prems have "c \<in> set (chunked_loop sz (buf @ [x]) xs)"
      by (simp add: Let_def)
    with Cons.IH[of "buf @ [x]"] Cons.prems(1) False show ?thesis by simp
  qed
qed

lemma chunked_loop_full:
  "0 < sz \<Longrightarrow> int (length buf) < sz \<Longrightarrow> c \<in> set (butlast (chunked_loop sz buf xs)) \<Longrightarrow>
   int (length c) = sz"
proof (induction xs arbitrary: buf)
  case Nil
  then show ?case by (auto split: if_splits)
next
  case (Cons x xs)
  show ?case
  proof (cases "int (length (buf @ [x])) \<ge> sz")
    case True
    with Cons.prems(3)
    have "c \<in> set (butlast ((buf @ [x]) # chunked_loop sz [] xs))"
      by (simp add: Let_def)
    then have "c = buf @ [x] \<or> c \<in> set (butlast (chunked_loop sz [] xs))"
      by (auto split: if_splits)
    then show ?thesis
    proof
      assume "c = buf @ [x]"
      with Cons.prems(2) True show ?thesis by simp
    next
      assume "c \<in> set (butlast (chunked_loop sz [] xs))"
      with Cons.IH[of "[]"] Cons.prems(1) show ?thesis by simp
    qed
  next
    case False
    with Cons.prems(3) have "c \<in> set (butlast (chunked_loop sz (buf @ [x]) xs))"
      by (simp add: Let_def)
    with Cons.IH[of "buf @ [x]"] Cons.prems(1) False show ?thesis by simp
  qed
qed

text \<open>
  Claim C9. For every finite iterable and every size above zero, the tuples that
  \<^verbatim>\<open>chunked\<close> yields, concatenated in order, are the input; every tuple is non-empty and
  no longer than the size; every tuple but the last has exactly the size. For a size of
  zero or less, \<^verbatim>\<open>ValueError\<close> is raised and nothing is yielded.
\<close>

theorem chunked_partitions_input:
  "(0 < sz \<longrightarrow>
      (\<exists>chunks. chunked xs sz = Inr chunks \<and> concat chunks = xs \<and>
         (\<forall>c \<in> set chunks. c \<noteq> [] \<and> int (length c) \<le> sz) \<and>
         (\<forall>c \<in> set (butlast chunks). int (length c) = sz))) \<and>
   (sz \<le> 0 \<longrightarrow> chunked xs sz = Inl (ValueError ''size must be > 0''))"
proof (intro conjI impI)
  assume pos: "0 < sz"
  have "chunked xs sz = Inr (chunked_loop sz [] xs)"
    using pos by (simp add: chunked_def)
  moreover have "concat (chunked_loop sz [] xs) = xs"
    by (simp add: chunked_loop_concat)
  moreover have "\<forall>c \<in> set (chunked_loop sz [] xs). c \<noteq> [] \<and> int (length c) \<le> sz"
    using chunked_loop_lengths[of sz "[]" _ xs] pos by simp
  moreover have "\<forall>c \<in> set (butlast (chunked_loop sz [] xs)). int (length c) = sz"
    using chunked_loop_full[of sz "[]" _ xs] pos by simp
  ultimately show "\<exists>chunks. chunked xs sz = Inr chunks \<and> concat chunks = xs \<and>
         (\<forall>c \<in> set chunks. c \<noteq> [] \<and> int (length c) \<le> sz) \<and>
         (\<forall>c \<in> set (butlast chunks). int (length c) = sz)"
    by blast
next
  assume "sz \<le> 0"
  then show "chunked xs sz = Inl (ValueError ''size must be > 0'')"
    by (simp add: chunked_def)
qed

theorem chunked_partitions_input_witness:
  "chunked [1, 2, 3, 4, 5 :: nat] 2 = Inr [[1, 2], [3, 4], [5]] \<and>
   concat [[1, 2], [3, 4], [5 :: nat]] = [1, 2, 3, 4, 5] \<and>
   chunked [1 :: nat] 0 = Inl (ValueError ''size must be > 0'')"
  using chunked_partitions_input[of 2 "[1, 2, 3, 4, 5 :: nat]"]
        chunked_partitions_input[of 0 "[1 :: nat]"]
  by (simp add: chunked_def)

section \<open>Facts about the helpers\<close>

lemma raise_api_error_raises:
  "\<exists>c m. raise_api_error env resp = Inl (Raised c m)"
  by (simp add: raise_api_error_def Let_def)

lemma then_return_raise_api_error:
  "then_return (raise_api_error env resp) v = Inl e \<longleftrightarrow> raise_api_error env resp = Inl e"
  using raise_api_error_raises[of env resp] by (auto simp: then_return_def)

lemma then_return_raise_api_error_Inr:
  "then_return (raise_api_error env resp) v \<noteq> Inr x"
  using raise_api_error_raises[of env resp] by (auto simp: then_return_def)

lemma session_request_calls:
  "calls (snd (session_request env m url p a j f s st)) =
     calls st @ [(prepare_request env st m url p a j f s,
                  fst (transport env (server st) (prepare_request env st m url p a j f s)))]"
  by (simp add: session_request_def Let_def split: sum.splits)

lemma session_request_fst:
  "fst (session_request env m url p a j f s st) =
     (case fst (transport env (server st) (prepare_request env st m url p a j f s)) of
        Inl x \<Rightarrow> Inl (RequestException x) | Inr resp \<Rightarrow> Inr resp)"
  by (simp add: session_request_def Let_def split: sum.splits)

lemma session_request_self:
  "self (snd (session_request env m url p a j f s st)) =
     (case fst (transport env (server st) (prepare_request env st m url p a j f s)) of
        Inl x \<Rightarrow> self st
      | Inr resp \<Rightarrow> (self st)\<lparr>session := (session (self st))\<lparr>cookies :=
                      update_jar (cookies (session (self st))) (set_cookies resp)\<rparr>\<rparr>)"
  by (simp add: session_request_def Let_def split: sum.splits)

lemma session_request_auth:
  "auth (session (self (snd (session_request env m url p a j f s st)))) =
     auth (session (self st))"
  by (simp add: session_request_self split: sum.splits)

lemma on_response_calls:
  "calls (snd (on_response (session_request env m url p a j f s st) h)) =
     calls st @ [(prepare_request env st m url p a j f s,
                  fst (transport env (server st) (prepare_request env st m url p a j f s)))]"
  by (simp add: on_response_def session_request_calls split: sum.splits)

lemma on_response_fst:
  "fst (on_response (session_request env m url p a j f s st) h) =
     (case fst (transport env (server st) (prepare_request env st m url p a j f s)) of
        Inl x \<Rightarrow> Inl (RequestException x) | Inr resp \<Rightarrow> h resp)"
  by (simp add: on_response_def session_request_fst split: sum.splits)

lemma on_response_self:
  "self (snd (on_response (session_request env m url p a j f s st) h)) =
     (case fst (transport env (server st) (prepare_request env st m url p a j f s)) of
        Inl x \<Rightarrow> self st
      | Inr resp \<Rightarrow> (self st)\<lparr>session := (session (self st))\<lparr>cookies :=
                      update_jar (cookies (session (self st))) (set_cookies resp)\<rparr>\<rparr>)"
  by (simp add: on_response_def session_request_self split: sum.splits)

text \<open>
  A call that is one request followed by statements on the response: the invocation
  recorded last decides the result.
\<close>

lemma on_response_last_call:
  assumes "on_response (session_request env m url p a j f s st) h = (res, st')"
  shows "\<exists>out. calls st' = calls st @ [(prepare_request env st m url p a j f s, out)] \<and>
           (case out of Inl x \<Rightarrow> res = Inl (RequestException x) | Inr resp \<Rightarrow> res = h resp)"
proof -
  let ?out = "fst (transport env (server st) (prepare_request env st m url p a j f s))"
  have "calls st' = calls st @ [(prepare_request env st m url p a j f s, ?out)]"
    using on_response_calls[of env m url p a j f s st h] assms by simp
  moreover have "(case ?out of Inl x \<Rightarrow> res = Inl (RequestException x) | Inr resp \<Rightarrow> res = h resp)"
    using on_response_fst[of env m url p a j f s st h] assms by (simp split: sum.splits)
  ultimately show ?thesis by blast
qed

lemmas run_defs =
  on_response_def session_request_def prepare_request_def then_return_def
  raise_unless_200_def url_of_def build_url_def rstrip_slash_def lstrip_slash_def

lemmas double_defs = stub_env_def always_def reply_def fresh_def init_def

lemmas classify_defs =
  raise_api_error_def extract_error_message_def py_or_def py_str_def dict_get_def

section \<open>Error classification\<close>

text \<open>
  Claim C1, as amended. \<^verbatim>\<open>_raise_api_error\<close> raises \<^verbatim>\<open>PermissionDenied\<close> for 401 and
  403, \<^verbatim>\<open>NotFoundError\<close> for 404, \<^verbatim>\<open>ValidationError\<close> for 400 and 405,
  \<^verbatim>\<open>ConflictError\<close> for 409, \<^verbatim>\<open>ServerError\<close> for every status from 500 up, and for
  every other status the base \<^verbatim>\<open>AenClientError\<close> whose message starts with
  \<^verbatim>\<open>HTTP\<close> and the decimal status code. \<^verbatim>\<open>_json_or_error\<close> and \<^verbatim>\<open>_text_or_error\<close>
  classify no status from 200 to 299 and every status outside that range. A method
  that tests \<^verbatim>\<open>status_code != 200\<close>, such as \<^verbatim>\<open>delete_object\<close>, returns on 200 and
  hands every other status, 201 to 299 included, to the classification.
\<close>

theorem error_classification_by_status:
  "(status_code resp = 401 \<or> status_code resp = 403 \<longrightarrow>
      raise_api_error env resp =
        Inl (Raised PermissionDenied
              (py_or (extract_error_message resp)
                     (PStr ''Permission denied / authentication required'')))) \<and>
   (status_code resp = 404 \<longrightarrow>
      raise_api_error env resp =
        Inl (Raised NotFoundError
              (py_or (extract_error_message resp) (PStr ''Resource not found'')))) \<and>
   (status_code resp = 400 \<or> status_code resp = 405 \<longrightarrow>
      raise_api_error env resp =
        Inl (Raised ValidationError
              (py_or (extract_error_message resp) (PStr ''Validation error'')))) \<and>
   (status_code resp = 409 \<longrightarrow>
      raise_api_error env resp =
        Inl (Raised ConflictError (py_or (extract_error_message resp) (PStr ''Conflict'')))) \<and>
   (500 \<le> status_code resp \<longrightarrow>
      raise_api_error env resp =
        Inl (Raised ServerError
              (py_or (extract_error_message resp) (PStr ''Server error'')))) \<and>
   (status_code resp < 500 \<and> status_code resp \<notin> {400, 401, 403, 404, 405, 409} \<longrightarrow>
      raise_api_error env resp =
        Inl (Raised AenClientError
              (PStr (''HTTP '' @ str_int (status_code resp) @ '': '' @
                     py_str (repr env)
                       (py_or (extract_error_message resp) (PStr ''Unexpected error'')))))) \<and>
   (200 \<le> status_code resp \<and> status_code resp < 300 \<longrightarrow>
      (\<forall>c m. json_or_error env resp \<noteq> Inl (Raised c m)) \<and>
      text_or_error env resp = Inr (PStr (body_text resp))) \<and>
   (\<not> (200 \<le> status_code resp \<and> status_code resp < 300) \<longrightarrow>
      (\<exists>e. raise_api_error env resp = Inl e \<and> json_or_error env resp = Inl e \<and>
           text_or_error env resp = Inl e)) \<and>
   (delete_object env object_id st = (res, st') \<and> snd (last (calls st')) = Inr resp \<longrightarrow>
      (status_code resp = 200 \<longrightarrow> res = Inr PNone) \<and>
      (status_code resp \<noteq> 200 \<longrightarrow> (\<exists>e. raise_api_error env resp = Inl e \<and> res = Inl e)))"
proof (intro conjI impI)
  assume "200 \<le> status_code resp \<and> status_code resp < 300"
  then show "\<forall>c m. json_or_error env resp \<noteq> Inl (Raised c m)"
    by (simp add: json_or_error_def split: option.splits)
next
  assume "200 \<le> status_code resp \<and> status_code resp < 300"
  then show "text_or_error env resp = Inr (PStr (body_text resp))"
    by (simp add: text_or_error_def)
next
  assume out: "\<not> (200 \<le> status_code resp \<and> status_code resp < 300)"
  obtain c m where e: "raise_api_error env resp = Inl (Raised c m)"
    using raise_api_error_raises by blast
  with out show "\<exists>e. raise_api_error env resp = Inl e \<and> json_or_error env resp = Inl e \<and>
           text_or_error env resp = Inl e"
    by (auto simp: json_or_error_def text_or_error_def then_return_def)
next
  assume run: "delete_object env object_id st = (res, st') \<and> snd (last (calls st')) = Inr resp"
  assume ok: "status_code resp = 200"
  from run obtain out where
    "calls st' = calls st @ [(prepare_request env st DELETE (url_of env st (''/object/'' @ object_id))
                               None None None None False, out)]"
    "(case out of Inl x \<Rightarrow> res = Inl (RequestException x)
      | Inr r \<Rightarrow> res = then_return (raise_unless_200 env r) PNone)"
    unfolding delete_object_def using on_response_last_call by blast
  with run have "res = then_return (raise_unless_200 env resp) PNone" by simp
  with ok show "res = Inr PNone"
    by (simp add: raise_unless_200_def then_return_def)
next
  assume run: "delete_object env object_id st = (res, st') \<and> snd (last (calls st')) = Inr resp"
  assume bad: "status_code resp \<noteq> 200"
  from run obtain out where
    "calls st' = calls st @ [(prepare_request env st DELETE (url_of env st (''/object/'' @ object_id))
                               None None None None False, out)]"
    "(case out of Inl x \<Rightarrow> res = Inl (RequestException x)
      | Inr r \<Rightarrow> res = then_return (raise_unless_200 env r) PNone)"
    unfolding delete_object_def using on_response_last_call by blast
  with run have res: "res = then_return (raise_unless_200 env resp) PNone" by simp
  obtain c m where e: "raise_api_error env resp = Inl (Raised c m)"
    using raise_api_error_raises by blast
  with res bad show "\<exists>e. raise_api_error env resp = Inl e \<and> res = Inl e"
    by (simp add: raise_unless_200_def then_return_def)
qed (auto simp: raise_api_error_def Let_def)

text \<open>The statement of claim C1 at explicit responses, one for each of its cases.\<close>

theorem error_classification_by_status_witness:
  "raise_api_error demo_env (reply 403 [] None) =
     Inl (Raised PermissionDenied (PStr ''Permission denied / authentication required'')) \<and>
   raise_api_error demo_env (reply 404 [] None) =
     Inl (Raised NotFoundError (PStr ''Resource not found'')) \<and>
   raise_api_error demo_env (reply 405 [] None) =
     Inl (Raised ValidationError (PStr ''Validation error'')) \<and>
   raise_api_error demo_env (reply 409 [] None) =
     Inl (Raised ConflictError (PStr ''Conflict'')) \<and>
   raise_api_error demo_env (reply 503 [] None) =
     Inl (Raised ServerError (PStr ''Server error'')) \<and>
   raise_api_error demo_env (reply 418 ''teapot'' None) =
     Inl (Raised AenClientError (PStr ''HTTP 418: teapot'')) \<and>
   text_or_error demo_env (reply 204 [] None) = Inr (PStr []) \<and>
   json_or_error demo_env (reply 302 [] None) =
     Inl (Raised AenClientError (PStr ''HTTP 302: Unexpected error'')) \<and>
   fst (delete_object (stub_env (always (reply 200 [] None))) ''A1''
         (fresh (stub_env (always (reply 200 [] None))) None None ())) = Inr PNone \<and>
   fst (delete_object (stub_env (always (reply 404 [] None))) ''A1''
         (fresh (stub_env (always (reply 404 [] None))) None None ())) =
     Inl (Raised NotFoundError (PStr ''Resource not found''))"
proof -
  let ?ok = "stub_env (always (reply 200 [] None))"
  let ?nf = "stub_env (always (reply 404 [] None))"
  note ex = reply_def extract_error_message_def py_or_def py_str_def
  have d418: "str_int 418 = ''418''" and d302: "str_int 302 = ''302''"
    by (simp_all add: str_int_def nat_digits.simps[of 418] nat_digits.simps[of 41]
          nat_digits.simps[of 4] nat_digits.simps[of 302] nat_digits.simps[of 30]
          nat_digits.simps[of 3])
  have "raise_api_error demo_env (reply 403 [] None) =
     Inl (Raised PermissionDenied (PStr ''Permission denied / authentication required''))"
    using error_classification_by_status[where resp = "reply 403 [] None" and env = demo_env]
    by (simp add: ex)
  moreover have "raise_api_error demo_env (reply 404 [] None) =
     Inl (Raised NotFoundError (PStr ''Resource not found''))"
    using error_classification_by_status[where resp = "reply 404 [] None" and env = demo_env]
    by (simp add: ex)
  moreover have "raise_api_error demo_env (reply 405 [] None) =
     Inl (Raised ValidationError (PStr ''Validation error''))"
    using error_classification_by_status[where resp = "reply 405 [] None" and env = demo_env]
    by (simp add: ex)
  moreover have "raise_api_error demo_env (reply 409 [] None) =
     Inl (Raised ConflictError (PStr ''Conflict''))"
    using error_classification_by_status[where resp = "reply 409 [] None" and env = demo_env]
    by (simp add: ex)
  moreover have "raise_api_error demo_env (reply 503 [] None) =
     Inl (Raised ServerError (PStr ''Server error''))"
    using error_classification_by_status[where resp = "reply 503 [] None" and env = demo_env]
    by (simp add: ex)
  moreover have "raise_api_error demo_env (reply 418 ''teapot'' None) =
     Inl (Raised AenClientError (PStr ''HTTP 418: teapot''))"
    using error_classification_by_status[where resp = "reply 418 ''teapot'' None"
            and env = demo_env] d418
    by (simp add: ex)
  moreover have "text_or_error demo_env (reply 204 [] None) = Inr (PStr [])"
    using error_classification_by_status[where resp = "reply 204 [] None" and env = demo_env]
    by (simp add: ex)
  moreover have "json_or_error demo_env (reply 302 [] None) =
     Inl (Raised AenClientError (PStr ''HTTP 302: Unexpected error''))"
    using error_classification_by_status[where resp = "reply 302 [] None" and env = demo_env
            and object_id = "[]" and st = demo_start and res = "Inr PNone" and st' = demo_start]
          d302
    by (auto simp: ex)
  moreover have "fst (delete_object ?ok ''A1'' (fresh ?ok None None ())) = Inr PNone"
  proof -
    have "snd (last (calls (snd (delete_object ?ok ''A1'' (fresh ?ok None None ()))))) =
            Inr (reply 200 [] None)"
      by (simp add: delete_object_def run_defs double_defs Let_def)
    then show ?thesis
      using error_classification_by_status[where resp = "reply 200 [] None" and env = ?ok
            and object_id = "''A1''" and st = "fresh ?ok None None ()"
            and res = "fst (delete_object ?ok ''A1'' (fresh ?ok None None ()))"
            and st' = "snd (delete_object ?ok ''A1'' (fresh ?ok None None ()))"]
      by (simp add: reply_def)
  qed
  moreover have "fst (delete_object ?nf ''A1'' (fresh ?nf None None ())) =
     Inl (Raised NotFoundError (PStr ''Resource not found''))"
  proof -
    have "snd (last (calls (snd (delete_object ?nf ''A1'' (fresh ?nf None None ()))))) =
            Inr (reply 404 [] None)"
      by (simp add: delete_object_def run_defs double_defs Let_def)
    then show ?thesis
      using error_classification_by_status[where resp = "reply 404 [] None" and env = ?nf
            and object_id = "''A1''" and st = "fresh ?nf None None ()"
            and res = "fst (delete_object ?nf ''A1'' (fresh ?nf None None ()))"
            and st' = "snd (delete_object ?nf ''A1'' (fresh ?nf None None ()))"]
      by (auto simp: ex)
  qed
  ultimately show ?thesis by blast
qed

text \<open>
  Claim C1 as first stated says that no status from 200 to 299 produces an error. A
  204 answer to \<^verbatim>\<open>delete_object\<close> is classified and raised.
\<close>

theorem delete_object_204_counterexample:
  "fst (delete_object (stub_env (always (reply 204 [] None))) ''A1''
         (fresh (stub_env (always (reply 204 [] None))) None None ())) =
     Inl (Raised AenClientError (PStr ''HTTP 204: Unexpected error''))"
  by (simp add: delete_object_def run_defs double_defs classify_defs str_int_def
        nat_digits.simps[of 204] nat_digits.simps[of 20] nat_digits.simps[of 2] Let_def)

section \<open>Message extraction\<close>

text \<open>
  Claim C6, as amended. When the body decodes to a \<^verbatim>\<open>dict\<close>, the extracted message is
  the first truthy value among its \<^verbatim>\<open>message\<close>, \<^verbatim>\<open>error\<close> and \<^verbatim>\<open>detail\<close> entries,
  and when none is truthy it is the (falsy) \<^verbatim>\<open>detail\<close> entry or \<^verbatim>\<open>None\<close>: the raw text
  is not consulted. When decoding fails or yields something other than a \<^verbatim>\<open>dict\<close>,
  the message is the raw response text, or \<^verbatim>\<open>None\<close> when that is empty. A truthy
  message becomes the argument of the raised exception (inside the \<^verbatim>\<open>HTTP\<close> line for
  the unclassified case); otherwise the default phrase of the error kind is used. The
  extraction is a total function of the response: a failing \<^verbatim>\<open>json()\<close> is one of its
  branches.
\<close>

theorem extract_error_message_order:
  "(json_body resp = Some (PDict d) \<longrightarrow>
      extract_error_message resp =
        (if truthy (dict_get d ''message'') then dict_get d ''message''
         else if truthy (dict_get d ''error'') then dict_get d ''error''
         else dict_get d ''detail'')) \<and>
   ((\<forall>d'. json_body resp \<noteq> Some (PDict d')) \<longrightarrow>
      extract_error_message resp =
        (if body_text resp = [] then PNone else PStr (body_text resp))) \<and>
   (truthy (extract_error_message resp) \<longrightarrow>
      (\<exists>c. raise_api_error env resp = Inl (Raised c (extract_error_message resp))) \<or>
      raise_api_error env resp =
        Inl (Raised AenClientError
              (PStr (''HTTP '' @ str_int (status_code resp) @ '': '' @
                     py_str (repr env) (extract_error_message resp))))) \<and>
   (\<not> truthy (extract_error_message resp) \<longrightarrow>
      raise_api_error env resp \<in>
        {Inl (Raised PermissionDenied (PStr ''Permission denied / authentication required'')),
         Inl (Raised NotFoundError (PStr ''Resource not found'')),
         Inl (Raised ConflictError (PStr ''Conflict'')),
         Inl (Raised ValidationError (PStr ''Validation error'')),
         Inl (Raised ServerError (PStr ''Server error'')),
         Inl (Raised AenClientError
               (PStr (''HTTP '' @ str_int (status_code resp) @ '': Unexpected error'')))})"
proof (intro conjI impI)
  assume "json_body resp = Some (PDict d)"
  then show "extract_error_message resp =
        (if truthy (dict_get d ''message'') then dict_get d ''message''
         else if truthy (dict_get d ''error'') then dict_get d ''error''
         else dict_get d ''detail'')"
    by (simp add: extract_error_message_def py_or_def)
next
  assume "\<forall>d'. json_body resp \<noteq> Some (PDict d')"
  then show "extract_error_message resp =
        (if body_text resp = [] then PNone else PStr (body_text resp))"
    by (simp add: extract_error_message_def py_or_def split: option.splits pyval.splits)
next
  assume "truthy (extract_error_message resp)"
  then show "(\<exists>c. raise_api_error env resp = Inl (Raised c (extract_error_message resp))) \<or>
      raise_api_error env resp =
        Inl (Raised AenClientError
              (PStr (''HTTP '' @ str_int (status_code resp) @ '': '' @
                     py_str (repr env) (extract_error_message resp))))"
    by (simp add: raise_api_error_def py_or_def Let_def)
next
  assume "\<not> truthy (extract_error_message resp)"
  then show "raise_api_error env resp \<in>
        {Inl (Raised PermissionDenied (PStr ''Permission denied / authentication required'')),
         Inl (Raised NotFoundError (PStr ''Resource not found'')),
         Inl (Raised ConflictError (PStr ''Conflict'')),
         Inl (Raised ValidationError (PStr ''Validation error'')),
         Inl (Raised ServerError (PStr ''Server error'')),
         Inl (Raised AenClientError
               (PStr (''HTTP '' @ str_int (status_code resp) @ '': Unexpected error'')))}"
    by (simp add: raise_api_error_def py_or_def py_str_def Let_def)
qed

text \<open>The statement of claim C6 at explicit responses.\<close>

theorem extract_error_message_order_witness:
  \<open>extract_error_message
     (reply 404 ''{"message": "", "error": "gone"}''
        (Some (PDict [(''message'', PStr []), (''error'', PStr ''gone'')]))) = PStr ''gone'' \<and>
   extract_error_message (reply 502 ''<html>Bad Gateway</html>'' None) =
     PStr ''<html>Bad Gateway</html>'' \<and>
   raise_api_error demo_env (reply 502 ''<html>Bad Gateway</html>'' None) =
     Inl (Raised ServerError (PStr ''<html>Bad Gateway</html>'')) \<and>
   raise_api_error demo_env (reply 502 [] None) = Inl (Raised ServerError (PStr ''Server error''))\<close>
proof -
  let ?r1 = \<open>reply 404 ''{"message": "", "error": "gone"}''
        (Some (PDict [(''message'', PStr []), (''error'', PStr ''gone'')]))\<close>
  let ?r2 = "reply 502 ''<html>Bad Gateway</html>'' None"
  let ?r3 = "reply 502 [] None"
  have "extract_error_message ?r1 = PStr ''gone''"
    using extract_error_message_order[where resp = ?r1 and env = demo_env
            and d = "[(''message'', PStr []), (''error'', PStr ''gone'')]"]
    by (simp add: reply_def dict_get_def)
  moreover have e2: "extract_error_message ?r2 = PStr ''<html>Bad Gateway</html>''"
    using extract_error_message_order[where resp = ?r2 and env = demo_env and d = "[]"]
    by (simp add: reply_def)
  moreover have "raise_api_error demo_env ?r2 =
     Inl (Raised ServerError (PStr ''<html>Bad Gateway</html>''))"
    using e2 by (simp add: raise_api_error_def py_or_def reply_def Let_def)
  moreover have "raise_api_error demo_env ?r3 = Inl (Raised ServerError (PStr ''Server error''))"
  proof -
    have "extract_error_message ?r3 = PNone"
      using extract_error_message_order[where resp = ?r3 and env = demo_env and d = "[]"]
      by (simp add: reply_def)
    then show ?thesis
      by (simp add: raise_api_error_def py_or_def reply_def Let_def)
  qed
  ultimately show ?thesis by blast
qed

text \<open>
  Claim C6 as first stated falls back to the raw text when none of the three fields is
  present. For a body that decodes to a \<^verbatim>\<open>dict\<close> without them the extracted message
  is \<^verbatim>\<open>None\<close> and the default phrase is raised, although the raw text is not empty.
\<close>

theorem extract_error_message_dict_counterexample:
  \<open>body_text (reply 400 ''{"code": 5}'' (Some (PDict [(''code'', PInt 5)]))) = ''{"code": 5}'' \<and>
   extract_error_message (reply 400 ''{"code": 5}'' (Some (PDict [(''code'', PInt 5)]))) = PNone \<and>
   raise_api_error demo_env (reply 400 ''{"code": 5}'' (Some (PDict [(''code'', PInt 5)]))) =
     Inl (Raised ValidationError (PStr ''Validation error''))\<close>
  by (simp add: reply_def classify_defs Let_def)

lemma on_response_last_resp:
  assumes "on_response (session_request env m url p a j f s st) h = (res, st')"
    and "snd (last (calls st')) = Inr resp"
  shows "res = h resp"
  using on_response_last_call[OF assms(1)] assms(2) by auto

lemma on_response_last_failure:
  assumes "on_response (session_request env m url p a j f s st) h = (res, st')"
    and "snd (last (calls st')) = Inl x"
  shows "res = Inl (RequestException x)"
  using on_response_last_call[OF assms(1)] assms(2) by auto

lemma list_files_last_resp:
  assumes "list_files env object_id st = (res, st')"
    and "snd (last (calls st')) = Inr resp"
  shows "res = (case json_or_error env resp of
                  Inl (Raised c m) \<Rightarrow> if status_code resp = 405 then Inr (PList []) else Inr PNone
                | Inl e \<Rightarrow> Inl e
                | Inr v \<Rightarrow> Inr v)"
proof -
  let ?sent = "session_request env GET (url_of env st (''/object/'' @ object_id @ ''/file/''))
                 None None None None False st"
  have c: "calls (snd ?sent) = calls st @ [(prepare_request env st GET
             (url_of env st (''/object/'' @ object_id @ ''/file/'')) None None None None False,
             fst (transport env (server st) (prepare_request env st GET
             (url_of env st (''/object/'' @ object_id @ ''/file/'')) None None None None False)))]"
    by (rule session_request_calls)
  have s: "st' = snd ?sent"
    using assms(1) by (auto simp: list_files_def Let_def split: sum.splits exn.splits if_splits)
  with c assms(2) have "fst ?sent = Inr resp"
    by (simp add: session_request_fst)
  with assms(1) show ?thesis
    by (auto simp: list_files_def Let_def split: sum.splits exn.splits)
qed

text \<open>Every method that ends in \<^verbatim>\<open>_json_or_error\<close>, \<^verbatim>\<open>list_files\<close> apart.\<close>

lemma json_op_result:
  assumes "via_json_or_error c" and "\<not> is_list_files c"
    and "run env c st = (res, st')" and "snd (last (calls st')) = Inr resp"
  shows "res = json_or_error env resp"
proof (cases c)
  case (GetObject oid view)
  with assms(3,4) show ?thesis
    by (auto simp: get_object_def dest: on_response_last_resp)
next
  case (CreateObject cat par attr props)
  with assms(3,4) show ?thesis
    by (auto simp: create_object_def Let_def dest: on_response_last_resp)
next
  case (UpdateObject oid props)
  with assms(3,4) show ?thesis
    by (auto simp: update_object_def Let_def dest: on_response_last_resp)
next
  case (GetObjects oids view)
  with assms(3,4) show ?thesis
    by (auto simp: get_objects_def Let_def dest: on_response_last_resp)
next
  case (CreateObjects objs)
  with assms(3,4) show ?thesis
    by (auto simp: create_objects_def dest: on_response_last_resp)
next
  case (Search q view attr cat limit)
  with assms(3,4) show ?thesis
    by (auto simp: search_def Let_def dest: on_response_last_resp)
next
  case (SearchByComponent cid oids view)
  with assms(3,4) show ?thesis
    by (auto simp: search_by_component_def Let_def dest: on_response_last_resp)
next
  case (GetObjectQueryResult oid qid view)
  with assms(3,4) show ?thesis
    by (auto simp: get_object_query_result_def dest: on_response_last_resp)
next
  case (GetObjectsQueryResult qid oids view)
  with assms(3,4) show ?thesis
    by (auto simp: get_objects_query_result_def Let_def dest: on_response_last_resp)
next
  case (ListFiles oid)
  with assms(2) show ?thesis by (simp add: is_list_files_def)
next
  case (GetFile oid fname attr pos)
  with assms(3,4) show ?thesis
    by (auto simp: get_file_def Let_def dest: on_response_last_resp)
next
  case SwitchToDraft
  with assms(3,4) show ?thesis
    by (auto simp: switch_to_draft_def dest: on_response_last_resp)
next
  case SwitchToRelease
  with assms(3,4) show ?thesis
    by (auto simp: switch_to_release_def dest: on_response_last_resp)
next
  case GetLocales
  with assms(3,4) show ?thesis
    by (auto simp: get_locales_def dest: on_response_last_resp)
qed (use assms(1) in \<open>simp_all add: via_json_or_error_def\<close>)

section \<open>The demonstration server, evaluated\<close>

lemma demo_start_simps:
  "base_url (self demo_start) = ''http://host/api''"
  "username (self demo_start) = Some ''user''"
  "password (self demo_start) = Some ''pass''"
  "service_id (self demo_start) = None"
  "session (self demo_start) =
     \<lparr>headers = [(''Accept'', ''application/json''), (''User-Agent'', ''aen-client/0.1'')],
      auth = None, cookies = []\<rparr>"
  "server demo_start = \<lparr>logged_in = False, tx = Idle\<rparr>"
  "calls demo_start = []"
  by (simp_all add: demo_start_def demo_env_def fresh_def init_def stub_env_def rstrip_slash_def
        lower_def lower_char_def)

lemma demo_env_simps:
  "transport demo_env = demo_server"
  "urljoin demo_env = (\<lambda>b p. b @ p)"
  "netrc_auth demo_env = (\<lambda>url. None)"
  "cookie_applies demo_env =
     (\<lambda>c url. take (length (''http://'' @ ck_domain c @ ck_path c)) url =
                ''http://'' @ ck_domain c @ ck_path c)"
  by (simp_all add: demo_env_def stub_env_def)


lemma demo_logged_in_simps:
  "base_url (self demo_logged_in) = ''http://host/api''"
  "session (self demo_logged_in) =
     \<lparr>headers = [(''Accept'', ''application/json''), (''User-Agent'', ''aen-client/0.1'')],
      auth = None, cookies = [demo_cookie]\<rparr>"
  "server demo_logged_in = \<lparr>logged_in = True, tx = Idle\<rparr>"
  "length (calls demo_logged_in) = 1"
  by (simp_all add: demo_logged_in_def login_def or_str_def opt_str_def py_and_def Let_def
        demo_start_simps
        demo_env_simps url_of_def build_url_def rstrip_slash_def lstrip_slash_def
        session_request_def prepare_request_def demo_server_def reply_def raise_unless_200_def)

lemmas demo_eval =
  demo_env_simps url_of_def build_url_def rstrip_slash_def lstrip_slash_def
  prepare_request_def cookies_for_def demo_cookie_def demo_server_def reply_def

lemma demo_begin_idle:
  "snd (last (calls (snd (begin_transaction demo_env demo_logged_in)))) = Inr (reply 200 [] None)"
  by (simp add: begin_transaction_def on_response_calls demo_logged_in_simps demo_eval)

lemma demo_open_simps:
  "base_url (self demo_open) = ''http://host/api''"
  "session (self demo_open) =
     \<lparr>headers = [(''Accept'', ''application/json''), (''User-Agent'', ''aen-client/0.1'')],
      auth = None, cookies = [demo_cookie]\<rparr>"
  "server demo_open = \<lparr>logged_in = True, tx = Open\<rparr>"
  by (simp_all add: demo_open_def begin_transaction_def on_response_def session_request_def
        Let_def demo_logged_in_simps demo_eval)

lemma demo_begin_open:
  "snd (last (calls (snd (begin_transaction demo_env demo_open)))) = Inr (reply 409 [] None)"
  by (simp add: begin_transaction_def on_response_calls demo_open_simps demo_eval)

lemma demo_commit_idle:
  "snd (last (calls (snd (commit_transaction demo_env demo_logged_in)))) = Inr (reply 409 [] None)"
  by (simp add: commit_transaction_def on_response_calls demo_logged_in_simps demo_eval)

lemma demo_rollback_idle:
  "snd (last (calls (snd (rollback_transaction demo_env demo_logged_in)))) =
     Inr (reply 409 [] None)"
  by (simp add: rollback_transaction_def on_response_calls demo_logged_in_simps demo_eval)

lemma demo_commit_anonymous:
  "snd (last (calls (snd (commit_transaction demo_env demo_start)))) = Inr (reply 401 [] None)"
  by (simp add: commit_transaction_def on_response_calls demo_start_simps demo_eval)


section \<open>Empty success bodies\<close>

text \<open>
  Claim C10. For a response with a status from 200 to 299 and an empty body,
  \<^verbatim>\<open>_json_or_error\<close> returns \<^verbatim>\<open>None\<close>, and so does every public method that ends in
  \<^verbatim>\<open>_json_or_error\<close>, \<^verbatim>\<open>get_object\<close> among them. A response whose non-empty body
  decodes to JSON \<^verbatim>\<open>null\<close> gives the same result, so the caller cannot tell the two
  apart.
\<close>

theorem empty_success_body_is_None:
  "200 \<le> status_code resp \<and> status_code resp < 300 \<and> content resp = [] \<longrightarrow>
     json_or_error env resp = Inr PNone \<and>
     (via_json_or_error c \<and> run env c st = (res, st') \<and> snd (last (calls st')) = Inr resp \<longrightarrow>
        res = Inr PNone) \<and>
     (200 \<le> status_code null_resp \<and> status_code null_resp < 300 \<and> content null_resp \<noteq> [] \<and>
      json_body null_resp = Some PNone \<longrightarrow>
        json_or_error env null_resp = json_or_error env resp \<and>
        (via_json_or_error c \<and> run env c stn = (resn, stn') \<and>
         snd (last (calls stn')) = Inr null_resp \<longrightarrow> resn = Inr PNone))"
proof (intro impI)
  assume a: "200 \<le> status_code resp \<and> status_code resp < 300 \<and> content resp = []"
  then have j: "json_or_error env resp = Inr PNone"
    by (simp add: json_or_error_def)
  have op_result: "r = Inr PNone"
    if "via_json_or_error c" "run env c s = (r, s')" "snd (last (calls s')) = Inr x"
       "json_or_error env x = Inr PNone" for r s s' x
  proof (cases "is_list_files c")
    case False
    with that show ?thesis using json_op_result[of c env s r s' x] by simp
  next
    case True
    then obtain oid where "c = ListFiles oid"
      by (auto simp: is_list_files_def split: operation.splits)
    with that show ?thesis using list_files_last_resp[of env oid s r s' x] by simp
  qed
  have n: "json_or_error env null_resp = Inr PNone"
    if "200 \<le> status_code null_resp \<and> status_code null_resp < 300 \<and> content null_resp \<noteq> [] \<and>
        json_body null_resp = Some PNone"
    using that by (simp add: json_or_error_def)
  show "json_or_error env resp = Inr PNone \<and>
     (via_json_or_error c \<and> run env c st = (res, st') \<and> snd (last (calls st')) = Inr resp \<longrightarrow>
        res = Inr PNone) \<and>
     (200 \<le> status_code null_resp \<and> status_code null_resp < 300 \<and> content null_resp \<noteq> [] \<and>
      json_body null_resp = Some PNone \<longrightarrow>
        json_or_error env null_resp = json_or_error env resp \<and>
        (via_json_or_error c \<and> run env c stn = (resn, stn') \<and>
         snd (last (calls stn')) = Inr null_resp \<longrightarrow> resn = Inr PNone))"
    using j n op_result by metis
qed

text \<open>Claim C10 on \<^verbatim>\<open>get_object\<close>, with an empty body and with the body \<^verbatim>\<open>null\<close>.\<close>

theorem empty_success_body_is_None_witness:
  "fst (get_object (stub_env (\<lambda>w req. (Inr (if w then reply 200 [] None
                                               else reply 200 ''null'' (Some PNone)), w)))
         ''A1'' (Some ''detailed'')
         (fresh (stub_env (\<lambda>w req. (Inr (if w then reply 200 [] None
                                               else reply 200 ''null'' (Some PNone)), w)))
            None None True)) = Inr PNone \<and>
   fst (get_object (stub_env (\<lambda>w req. (Inr (if w then reply 200 [] None
                                               else reply 200 ''null'' (Some PNone)), w)))
         ''A1'' (Some ''detailed'')
         (fresh (stub_env (\<lambda>w req. (Inr (if w then reply 200 [] None
                                               else reply 200 ''null'' (Some PNone)), w)))
            None None False)) = Inr PNone"
proof -
  let ?env = "stub_env (\<lambda>w req. (Inr (if w then reply 200 [] None
                                         else reply 200 ''null'' (Some PNone)), w))"
  let ?empty = "get_object ?env ''A1'' (Some ''detailed'') (fresh ?env None None True)"
  let ?null = "get_object ?env ''A1'' (Some ''detailed'') (fresh ?env None None False)"
  have l1: "snd (last (calls (snd ?empty))) = Inr (reply 200 [] None)"
    by (simp add: get_object_def run_defs double_defs view_params_def opt_str_def Let_def)
  have l2: "snd (last (calls (snd ?null))) = Inr (reply 200 ''null'' (Some PNone))"
    by (simp add: get_object_def run_defs double_defs view_params_def opt_str_def Let_def)
  have r1: "run ?env (GetObject ''A1'' (Some ''detailed'')) (fresh ?env None None True) =
              (fst ?empty, snd ?empty)"
    and r2: "run ?env (GetObject ''A1'' (Some ''detailed'')) (fresh ?env None None False) =
              (fst ?null, snd ?null)"
    by simp_all
  have v: "via_json_or_error (GetObject ''A1'' (Some ''detailed''))"
    by (simp add: via_json_or_error_def)
  have s: "200 \<le> status_code (reply 200 [] None) \<and> status_code (reply 200 [] None) < 300 \<and>
           content (reply 200 [] None) = []"
    and n: "200 \<le> status_code (reply 200 ''null'' (Some PNone)) \<and>
            status_code (reply 200 ''null'' (Some PNone)) < 300 \<and>
            content (reply 200 ''null'' (Some PNone)) \<noteq> [] \<and>
            json_body (reply 200 ''null'' (Some PNone)) = Some PNone"
    by (simp_all add: reply_def)
  show ?thesis
    using empty_success_body_is_None[where resp = "reply 200 [] None" and env = ?env
            and c = "GetObject ''A1'' (Some ''detailed'')"
            and st = "fresh ?env None None True" and res = "fst ?empty" and st' = "snd ?empty"
            and null_resp = "reply 200 ''null'' (Some PNone)"
            and stn = "fresh ?env None None False" and resn = "fst ?null"
            and stn' = "snd ?null"]
          l1 l2 r1 r2 v s n
    by blast
qed

lemma raise_unless_200_cases:
  "(status_code resp = 200 \<longrightarrow> then_return (raise_unless_200 env resp) v = Inr v) \<and>
   (status_code resp \<noteq> 200 \<longrightarrow>
      (\<exists>e. raise_api_error env resp = Inl e \<and>
           then_return (raise_unless_200 env resp) v = Inl e))"
  using raise_api_error_raises[of env resp]
  by (auto simp: raise_unless_200_def then_return_def)

section \<open>Login and logout\<close>

text \<open>
  Claim C5. When the username is missing or empty both in the call and on the
  instance, or the password is, \<^verbatim>\<open>login\<close> raises \<^verbatim>\<open>AuthenticationError\<close> and leaves
  the whole state as it was: no transport invocation is recorded and the server is
  not reached.
\<close>

theorem login_requires_credentials:
  "((username_arg = None \<or> username_arg = Some []) \<and>
    (username (self st) = None \<or> username (self st) = Some [])) \<or>
   ((password_arg = None \<or> password_arg = Some []) \<and>
    (password (self st) = None \<or> password (self st) = Some []))
   \<longrightarrow>
   login env username_arg password_arg service_id_arg st =
     (Inl (Raised AuthenticationError (PStr ''username and password are required for login'')),
      st) \<and>
   calls (snd (login env username_arg password_arg service_id_arg st)) = calls st \<and>
   server (snd (login env username_arg password_arg service_id_arg st)) = server st"
  by (auto simp: login_def or_str_def opt_str_def py_and_def Let_def)

text \<open>Claim C5 with no username anywhere, and with an empty password.\<close>

theorem login_requires_credentials_witness:
  "login demo_env None (Some ''secret'') None
     (fresh demo_env None None \<lparr>logged_in = False, tx = Idle\<rparr>) =
     (Inl (Raised AuthenticationError (PStr ''username and password are required for login'')),
      fresh demo_env None None \<lparr>logged_in = False, tx = Idle\<rparr>) \<and>
   calls (snd (login demo_env None (Some ''secret'') None
     (fresh demo_env None None \<lparr>logged_in = False, tx = Idle\<rparr>))) = [] \<and>
   login demo_env (Some ''user'') (Some []) None
     (fresh demo_env (Some []) None \<lparr>logged_in = False, tx = Idle\<rparr>) =
     (Inl (Raised AuthenticationError (PStr ''username and password are required for login'')),
      fresh demo_env (Some []) None \<lparr>logged_in = False, tx = Idle\<rparr>)"
  using login_requires_credentials[where username_arg = None and password_arg = "Some ''secret''"
          and service_id_arg = None and env = demo_env
          and st = "fresh demo_env None None \<lparr>logged_in = False, tx = Idle\<rparr>"]
        login_requires_credentials[where username_arg = "Some ''user''" and password_arg = "Some []"
          and service_id_arg = None and env = demo_env
          and st = "fresh demo_env (Some []) None \<lparr>logged_in = False, tx = Idle\<rparr>"]
  by (simp add: fresh_def init_def)

section \<open>Transactions\<close>

text \<open>
  A method that sends one request and overrides status 409 before the general test
  of the status: the request goes to the transport, and the answer of the transport
  decides the result.
\<close>

lemma overridden_call:
  assumes "on_response (session_request env m url None None None None False st)
             (\<lambda>resp. if status_code resp = 409 then Inl e409
                      else then_return (raise_unless_200 env resp) PNone) = (res, st')"
  shows "(let req = prepare_request env st m url None None None None False;
              out = fst (transport env (server st) req)
          in calls st' = calls st @ [(req, out)] \<and>
             (case out of
                Inl x \<Rightarrow> res = Inl (RequestException x)
              | Inr resp \<Rightarrow>
                  (status_code resp = 409 \<longrightarrow> res = Inl e409) \<and>
                  (status_code resp = 200 \<longrightarrow> res = Inr PNone) \<and>
                  (status_code resp \<noteq> 409 \<and> status_code resp \<noteq> 200 \<longrightarrow>
                     (\<exists>e. raise_api_error env resp = Inl e \<and> res = Inl e))))"
proof -
  let ?h = "\<lambda>resp. if status_code resp = 409 then Inl e409
                   else then_return (raise_unless_200 env resp) PNone"
  let ?req = "prepare_request env st m url None None None None False"
  let ?out = "fst (transport env (server st) ?req)"
  have c: "calls st' = calls st @ [(?req, ?out)]"
    using on_response_calls[of env m url None None None None False st ?h] assms by simp
  have r: "res = (case ?out of Inl x \<Rightarrow> Inl (RequestException x) | Inr resp \<Rightarrow> ?h resp)"
    using on_response_fst[of env m url None None None None False st ?h] assms by simp
  have "(case ?out of
                Inl x \<Rightarrow> res = Inl (RequestException x)
              | Inr resp \<Rightarrow>
                  (status_code resp = 409 \<longrightarrow> res = Inl e409) \<and>
                  (status_code resp = 200 \<longrightarrow> res = Inr PNone) \<and>
                  (status_code resp \<noteq> 409 \<and> status_code resp \<noteq> 200 \<longrightarrow>
                     (\<exists>e. raise_api_error env resp = Inl e \<and> res = Inl e)))"
  proof (cases ?out)
    case (Inl x)
    with r show ?thesis by simp
  next
    case (Inr resp)
    with r raise_unless_200_cases[of resp env PNone] show ?thesis by auto
  qed
  with c show ?thesis by (simp add: Let_def)
qed

text \<open>
  Claim C3, as amended. Each of \<^verbatim>\<open>begin_transaction\<close>, \<^verbatim>\<open>commit_transaction\<close> and
  \<^verbatim>\<open>rollback_transaction\<close> sends one PUT request to its endpoint, and the answer of the
  transport to that request decides the result. On 409, begin raises \<^verbatim>\<open>ConflictError\<close>
  with the message "A transaction is already open. Commit or rollback first.", commit
  raises \<^verbatim>\<open>TransactionError\<close> with the message "No open transaction to commit.", and
  rollback raises \<^verbatim>\<open>TransactionError\<close> with the message "No open transaction to
  rollback.". On 200 each returns. On every other status each raises what the generic
  classification \<^verbatim>\<open>_raise_api_error\<close> raises for the answer. A transport failure is
  raised as such.
\<close>

theorem transaction_conflict_overrides:
  "(begin_transaction env st = (res, st') \<longrightarrow>
      (let req = prepare_request env st PUT (url_of env st ''/session/transaction/begin'')
                   None None None None False;
           out = fst (transport env (server st) req)
       in calls st' = calls st @ [(req, out)] \<and>
          (case out of
             Inl x \<Rightarrow> res = Inl (RequestException x)
           | Inr resp \<Rightarrow>
               (status_code resp = 409 \<longrightarrow>
                  res = Inl (Raised ConflictError
                              (PStr ''A transaction is already open. Commit or rollback first.''))) \<and>
               (status_code resp = 200 \<longrightarrow> res = Inr PNone) \<and>
               (status_code resp \<noteq> 409 \<and> status_code resp \<noteq> 200 \<longrightarrow>
                  (\<exists>e. raise_api_error env resp = Inl e \<and> res = Inl e))))) \<and>
   (commit_transaction env st = (res, st') \<longrightarrow>
      (let req = prepare_request env st PUT (url_of env st ''/session/transaction/commit'')
                   None None None None False;
           out = fst (transport env (server st) req)
       in calls st' = calls st @ [(req, out)] \<and>
          (case out of
             Inl x \<Rightarrow> res = Inl (RequestException x)
           | Inr resp \<Rightarrow>
               (status_code resp = 409 \<longrightarrow>
                  res = Inl (Raised TransactionError (PStr ''No open transaction to commit.''))) \<and>
               (status_code resp = 200 \<longrightarrow> res = Inr PNone) \<and>
               (status_code resp \<noteq> 409 \<and> status_code resp \<noteq> 200 \<longrightarrow>
                  (\<exists>e. raise_api_error env resp = Inl e \<and> res = Inl e))))) \<and>
   (rollback_transaction env st = (res, st') \<longrightarrow>
      (let req = prepare_request env st PUT (url_of env st ''/session/transaction/rollback'')
                   None None None None False;
           out = fst (transport env (server st) req)
       in calls st' = calls st @ [(req, out)] \<and>
          (case out of
             Inl x \<Rightarrow> res = Inl (RequestException x)
           | Inr resp \<Rightarrow>
               (status_code resp = 409 \<longrightarrow>
                  res = Inl (Raised TransactionError (PStr ''No open transaction to rollback.''))) \<and>
               (status_code resp = 200 \<longrightarrow> res = Inr PNone) \<and>
               (status_code resp \<noteq> 409 \<and> status_code resp \<noteq> 200 \<longrightarrow>
                  (\<exists>e. raise_api_error env resp = Inl e \<and> res = Inl e)))))"
proof (intro conjI impI)
  assume "begin_transaction env st = (res, st')"
  then show "(let req = prepare_request env st PUT (url_of env st ''/session/transaction/begin'')
                   None None None None False;
           out = fst (transport env (server st) req)
       in calls st' = calls st @ [(req, out)] \<and>
          (case out of
             Inl x \<Rightarrow> res = Inl (RequestException x)
           | Inr resp \<Rightarrow>
               (status_code resp = 409 \<longrightarrow>
                  res = Inl (Raised ConflictError
                              (PStr ''A transaction is already open. Commit or rollback first.''))) \<and>
               (status_code resp = 200 \<longrightarrow> res = Inr PNone) \<and>
               (status_code resp \<noteq> 409 \<and> status_code resp \<noteq> 200 \<longrightarrow>
                  (\<exists>e. raise_api_error env resp = Inl e \<and> res = Inl e))))"
    unfolding begin_transaction_def by (rule overridden_call)
next
  assume "commit_transaction env st = (res, st')"
  then show "(let req = prepare_request env st PUT (url_of env st ''/session/transaction/commit'')
                   None None None None False;
           out = fst (transport env (server st) req)
       in calls st' = calls st @ [(req, out)] \<and>
          (case out of
             Inl x \<Rightarrow> res = Inl (RequestException x)
           | Inr resp \<Rightarrow>
               (status_code resp = 409 \<longrightarrow>
                  res = Inl (Raised TransactionError (PStr ''No open transaction to commit.''))) \<and>
               (status_code resp = 200 \<longrightarrow> res = Inr PNone) \<and>
               (status_code resp \<noteq> 409 \<and> status_code resp \<noteq> 200 \<longrightarrow>
                  (\<exists>e. raise_api_error env resp = Inl e \<and> res = Inl e))))"
    unfolding commit_transaction_def by (rule overridden_call)
next
  assume "rollback_transaction env st = (res, st')"
  then show "(let req = prepare_request env st PUT (url_of env st ''/session/transaction/rollback'')
                   None None None None False;
           out = fst (transport env (server st) req)
       in calls st' = calls st @ [(req, out)] \<and>
          (case out of
             Inl x \<Rightarrow> res = Inl (RequestException x)
           | Inr resp \<Rightarrow>
               (status_code resp = 409 \<longrightarrow>
                  res = Inl (Raised TransactionError (PStr ''No open transaction to rollback.''))) \<and>
               (status_code resp = 200 \<longrightarrow> res = Inr PNone) \<and>
               (status_code resp \<noteq> 409 \<and> status_code resp \<noteq> 200 \<longrightarrow>
                  (\<exists>e. raise_api_error env resp = Inl e \<and> res = Inl e))))"
    unfolding rollback_transaction_def by (rule overridden_call)
qed

text \<open>
  Claim C3 against the demonstration server: a first begin, a second begin, commit and
  rollback without an open transaction, a rollback of the open transaction, and
  rollback and commit without a session.
\<close>

theorem transaction_conflict_overrides_witness:
  "fst (begin_transaction demo_env demo_logged_in) = Inr PNone \<and>
   fst (begin_transaction demo_env demo_open) =
     Inl (Raised ConflictError
           (PStr ''A transaction is already open. Commit or rollback first.'')) \<and>
   fst (commit_transaction demo_env demo_logged_in) =
     Inl (Raised TransactionError (PStr ''No open transaction to commit.'')) \<and>
   fst (rollback_transaction demo_env demo_logged_in) =
     Inl (Raised TransactionError (PStr ''No open transaction to rollback.'')) \<and>
   fst (rollback_transaction demo_env demo_open) = Inr PNone \<and>
   fst (rollback_transaction demo_env demo_start) =
     Inl (Raised PermissionDenied (PStr ''Permission denied / authentication required'')) \<and>
   fst (commit_transaction demo_env demo_start) =
     Inl (Raised PermissionDenied (PStr ''Permission denied / authentication required''))"
proof -
  have t6: "fst (transport demo_env (server demo_open)
              (prepare_request demo_env demo_open PUT
                 (url_of demo_env demo_open ''/session/transaction/rollback'')
                 None None None None False)) = Inr (reply 200 [] None)"
    by (simp add: demo_open_simps demo_eval)
  have t7: "fst (transport demo_env (server demo_start)
              (prepare_request demo_env demo_start PUT
                 (url_of demo_env demo_start ''/session/transaction/rollback'')
                 None None None None False)) = Inr (reply 401 [] None)"
    by (simp add: demo_start_simps demo_eval)
  have denied: "raise_api_error demo_env (reply 401 [] None) =
            Inl (Raised PermissionDenied (PStr ''Permission denied / authentication required''))"
    by (simp add: classify_defs reply_def Let_def)
  have t1: "fst (transport demo_env (server demo_logged_in)
              (prepare_request demo_env demo_logged_in PUT
                 (url_of demo_env demo_logged_in ''/session/transaction/begin'')
                 None None None None False)) = Inr (reply 200 [] None)"
    by (simp add: demo_logged_in_simps demo_eval)
  have t2: "fst (transport demo_env (server demo_open)
              (prepare_request demo_env demo_open PUT
                 (url_of demo_env demo_open ''/session/transaction/begin'')
                 None None None None False)) = Inr (reply 409 [] None)"
    by (simp add: demo_open_simps demo_eval)
  have t3: "fst (transport demo_env (server demo_logged_in)
              (prepare_request demo_env demo_logged_in PUT
                 (url_of demo_env demo_logged_in ''/session/transaction/commit'')
                 None None None None False)) = Inr (reply 409 [] None)"
    by (simp add: demo_logged_in_simps demo_eval)
  have t4: "fst (transport demo_env (server demo_logged_in)
              (prepare_request demo_env demo_logged_in PUT
                 (url_of demo_env demo_logged_in ''/session/transaction/rollback'')
                 None None None None False)) = Inr (reply 409 [] None)"
    by (simp add: demo_logged_in_simps demo_eval)
  have t5: "fst (transport demo_env (server demo_start)
              (prepare_request demo_env demo_start PUT
                 (url_of demo_env demo_start ''/session/transaction/commit'')
                 None None None None False)) = Inr (reply 401 [] None)"
    by (simp add: demo_start_simps demo_eval)
  have "fst (begin_transaction demo_env demo_logged_in) = Inr PNone"
    using transaction_conflict_overrides[where env = demo_env and st = demo_logged_in
            and res = "fst (begin_transaction demo_env demo_logged_in)"
            and st' = "snd (begin_transaction demo_env demo_logged_in)"] t1
    by (simp add: Let_def reply_def)
  moreover have "fst (begin_transaction demo_env demo_open) =
     Inl (Raised ConflictError
           (PStr ''A transaction is already open. Commit or rollback first.''))"
    using transaction_conflict_overrides[where env = demo_env and st = demo_open
            and res = "fst (begin_transaction demo_env demo_open)"
            and st' = "snd (begin_transaction demo_env demo_open)"] t2
    by (simp add: Let_def reply_def)
  moreover have "fst (commit_transaction demo_env demo_logged_in) =
     Inl (Raised TransactionError (PStr ''No open transaction to commit.''))"
    using transaction_conflict_overrides[where env = demo_env and st = demo_logged_in
            and res = "fst (commit_transaction demo_env demo_logged_in)"
            and st' = "snd (commit_transaction demo_env demo_logged_in)"] t3
    by (simp add: Let_def reply_def)
  moreover have "fst (rollback_transaction demo_env demo_logged_in) =
     Inl (Raised TransactionError (PStr ''No open transaction to rollback.''))"
    using transaction_conflict_overrides[where env = demo_env and st = demo_logged_in
            and res = "fst (rollback_transaction demo_env demo_logged_in)"
            and st' = "snd (rollback_transaction demo_env demo_logged_in)"] t4
    by (simp add: Let_def reply_def)
  moreover have "fst (rollback_transaction demo_env demo_open) = Inr PNone"
    using transaction_conflict_overrides[where env = demo_env and st = demo_open
            and res = "fst (rollback_transaction demo_env demo_open)"
            and st' = "snd (rollback_transaction demo_env demo_open)"] t6
    by (simp add: Let_def reply_def)
  moreover have "fst (rollback_transaction demo_env demo_start) =
     Inl (Raised PermissionDenied (PStr ''Permission denied / authentication required''))"
    using transaction_conflict_overrides[where env = demo_env and st = demo_start
            and res = "fst (rollback_transaction demo_env demo_start)"
            and st' = "snd (rollback_transaction demo_env demo_start)"] t7 denied
    by (auto simp: Let_def reply_def)
  moreover have "fst (commit_transaction demo_env demo_start) =
     Inl (Raised PermissionDenied (PStr ''Permission denied / authentication required''))"
  proof -
    have "raise_api_error demo_env (reply 401 [] None) =
            Inl (Raised PermissionDenied (PStr ''Permission denied / authentication required''))"
      by (simp add: classify_defs reply_def Let_def)
    then show ?thesis
      using transaction_conflict_overrides[where env = demo_env and st = demo_start
            and res = "fst (commit_transaction demo_env demo_start)"
            and st' = "snd (commit_transaction demo_env demo_start)"] t5
      by (auto simp: Let_def reply_def)
  qed
  ultimately show ?thesis by blast
qed

text \<open>
  Claim C3 as first stated quotes the messages of commit and rollback as "no open
  transaction to commit" and "no open transaction to rollback". The messages raised
  begin with a capital and end with a period.
\<close>

theorem transaction_message_literal_counterexample:
  "fst (commit_transaction demo_env demo_logged_in) =
     Inl (Raised TransactionError (PStr ''No open transaction to commit.'')) \<and>
   fst (commit_transaction demo_env demo_logged_in) \<noteq>
     Inl (Raised TransactionError (PStr ''no open transaction to commit'')) \<and>
   fst (rollback_transaction demo_env demo_logged_in) =
     Inl (Raised TransactionError (PStr ''No open transaction to rollback.'')) \<and>
   fst (rollback_transaction demo_env demo_logged_in) \<noteq>
     Inl (Raised TransactionError (PStr ''no open transaction to rollback''))"
  by (simp add: commit_transaction_def rollback_transaction_def on_response_fst
        demo_logged_in_simps demo_eval)

section \<open>Requests and client state, method by method\<close>

lemma session_request_server:
  "server (snd (session_request env m url p a j f s st)) =
     snd (transport env (server st) (prepare_request env st m url p a j f s))"
  by (simp add: session_request_def Let_def split: sum.splits)

lemma on_response_server:
  "server (snd (on_response (session_request env m url p a j f s st) h)) =
     snd (transport env (server st) (prepare_request env st m url p a j f s))"
  by (simp add: on_response_def session_request_server split: sum.splits)

lemma prepare_request_parts:
  "req_url (prepare_request env st m url p a j f s) = url"
  "req_method (prepare_request env st m url p a j f s) = m"
  "req_cookies (prepare_request env st m url p a j f s) =
     cookies_for env (cookies (session (self st))) url"
  "auth (session (self st)) = None \<Longrightarrow>
   req_auth (prepare_request env st m url p None j f s) = netrc_auth env url"
  "req_auth (prepare_request env st m url p (Some c) j f s) = Some c"
  by (simp_all add: prepare_request_def Let_def split: option.splits)

lemma cookies_for_empty: "cookies_for env [] url = []"
  by (simp add: cookies_for_def)

lemma logout_last_call:
  assumes "logout env st = (res, st')"
  shows "(let req = prepare_request env st GET (url_of env st ''/user/logout'')
                      None None None None False;
              out = fst (transport env (server st) req)
          in calls st' = calls st @ [(req, out)] \<and>
             auth (session (self st')) = auth (session (self st)) \<and>
             (case out of
                Inl x \<Rightarrow> res = Inl (RequestException x) \<and> self st' = self st
              | Inr resp \<Rightarrow>
                  (status_code resp = 200 \<longrightarrow>
                     res = Inr PNone \<and> cookies (session (self st')) = []) \<and>
                  (status_code resp \<noteq> 200 \<longrightarrow>
                     (\<exists>e. raise_api_error env resp = Inl e \<and> res = Inl e) \<and>
                     cookies (session (self st')) =
                       update_jar (cookies (session (self st))) (set_cookies resp))))"
proof -
  let ?req = "prepare_request env st GET (url_of env st ''/user/logout'') None None None None False"
  let ?sent = "session_request env GET (url_of env st ''/user/logout'') None None None None False st"
  let ?out = "fst (transport env (server st) ?req)"
  obtain c m where e: "\<And>r. raise_api_error env r = Inl (Raised (c r) (m r))"
    using raise_api_error_raises[of env] by metis
  have calls: "calls st' = calls st @ [(?req, ?out)]"
    using assms session_request_calls[of env GET "url_of env st ''/user/logout''"
            None None None None False st]
    by (auto simp: logout_def Let_def split: sum.splits)
  have a: "auth (session (self st')) = auth (session (self st))"
    using assms session_request_auth[of env GET "url_of env st ''/user/logout''"
            None None None None False st]
    by (auto simp: logout_def Let_def split: sum.splits)
  have r: "(case ?out of
              Inl x \<Rightarrow> res = Inl (RequestException x) \<and> self st' = self st
            | Inr resp \<Rightarrow>
                (status_code resp = 200 \<longrightarrow>
                   res = Inr PNone \<and> cookies (session (self st')) = []) \<and>
                (status_code resp \<noteq> 200 \<longrightarrow>
                   (\<exists>e. raise_api_error env resp = Inl e \<and> res = Inl e) \<and>
                   cookies (session (self st')) =
                     update_jar (cookies (session (self st))) (set_cookies resp)))"
    using assms e
    by (auto simp: logout_def Let_def session_request_fst session_request_self
          raise_unless_200_def split: sum.splits)
  from calls a r show ?thesis by (simp add: Let_def)
qed

text \<open>
  Claim C8, as amended. \<^verbatim>\<open>logout\<close> sends one GET request to the logout endpoint, with
  the cookies of the jar that apply to it. When the transport answers 200, the only
  status \<^verbatim>\<open>logout\<close> takes for success, it returns and the jar is empty afterwards. Any
  other answer, 201 to 299 included, is raised to the caller through the
  classification (a 401 as \<^verbatim>\<open>PermissionDenied\<close>), and the jar is not cleared: it is the
  jar as before with the cookies of that answer stored. A \<^verbatim>\<open>logout\<close> that starts with an
  empty jar, as a second one after a first that succeeded does, sends no cookie.
\<close>

theorem logout_discards_cookies:
  "logout env st = (res, st') \<longrightarrow>
     (let req = prepare_request env st GET (url_of env st ''/user/logout'')
                  None None None None False;
          out = fst (transport env (server st) req)
      in calls st' = calls st @ [(req, out)] \<and>
         (cookies (session (self st)) = [] \<longrightarrow> req_cookies req = []) \<and>
         (case out of
            Inl x \<Rightarrow>
              res = Inl (RequestException x) \<and>
              cookies (session (self st')) = cookies (session (self st))
          | Inr resp \<Rightarrow>
              (status_code resp = 200 \<longrightarrow>
                 res = Inr PNone \<and> cookies (session (self st')) = []) \<and>
              (status_code resp \<noteq> 200 \<longrightarrow>
                 (\<exists>e. raise_api_error env resp = Inl e \<and> res = Inl e) \<and>
                 cookies (session (self st')) =
                   update_jar (cookies (session (self st))) (set_cookies resp)) \<and>
              (status_code resp = 401 \<longrightarrow>
                 res = Inl (Raised PermissionDenied
                             (py_or (extract_error_message resp)
                                    (PStr ''Permission denied / authentication required''))))))"
proof (intro impI)
  assume l: "logout env st = (res, st')"
  let ?req = "prepare_request env st GET (url_of env st ''/user/logout'') None None None None False"
  let ?out = "fst (transport env (server st) ?req)"
  from logout_last_call[OF l] have
    c: "calls st' = calls st @ [(?req, ?out)]" and
    r: "(case ?out of
              Inl x \<Rightarrow> res = Inl (RequestException x) \<and> self st' = self st
            | Inr resp \<Rightarrow>
                (status_code resp = 200 \<longrightarrow>
                   res = Inr PNone \<and> cookies (session (self st')) = []) \<and>
                (status_code resp \<noteq> 200 \<longrightarrow>
                   (\<exists>e. raise_api_error env resp = Inl e \<and> res = Inl e) \<and>
                   cookies (session (self st')) =
                     update_jar (cookies (session (self st))) (set_cookies resp)))"
    by (simp_all add: Let_def)
  have k: "cookies (session (self st)) = [] \<longrightarrow> req_cookies ?req = []"
    by (simp add: prepare_request_parts cookies_for_empty)
  have body: "(case ?out of
            Inl x \<Rightarrow>
              res = Inl (RequestException x) \<and>
              cookies (session (self st')) = cookies (session (self st))
          | Inr resp \<Rightarrow>
              (status_code resp = 200 \<longrightarrow>
                 res = Inr PNone \<and> cookies (session (self st')) = []) \<and>
              (status_code resp \<noteq> 200 \<longrightarrow>
                 (\<exists>e. raise_api_error env resp = Inl e \<and> res = Inl e) \<and>
                 cookies (session (self st')) =
                   update_jar (cookies (session (self st))) (set_cookies resp)) \<and>
              (status_code resp = 401 \<longrightarrow>
                 res = Inl (Raised PermissionDenied
                             (py_or (extract_error_message resp)
                                    (PStr ''Permission denied / authentication required'')))))"
  proof (cases ?out)
    case (Inl x)
    with r show ?thesis by simp
  next
    case (Inr resp)
    have "status_code resp = 401 \<longrightarrow> raise_api_error env resp =
            Inl (Raised PermissionDenied
                  (py_or (extract_error_message resp)
                         (PStr ''Permission denied / authentication required'')))"
      by (simp add: raise_api_error_def Let_def)
    with Inr r show ?thesis by auto
  qed
  from c k body
  show "(let req = prepare_request env st GET (url_of env st ''/user/logout'')
                  None None None None False;
          out = fst (transport env (server st) req)
      in calls st' = calls st @ [(req, out)] \<and>
         (cookies (session (self st)) = [] \<longrightarrow> req_cookies req = []) \<and>
         (case out of
            Inl x \<Rightarrow>
              res = Inl (RequestException x) \<and>
              cookies (session (self st')) = cookies (session (self st))
          | Inr resp \<Rightarrow>
              (status_code resp = 200 \<longrightarrow>
                 res = Inr PNone \<and> cookies (session (self st')) = []) \<and>
              (status_code resp \<noteq> 200 \<longrightarrow>
                 (\<exists>e. raise_api_error env resp = Inl e \<and> res = Inl e) \<and>
                 cookies (session (self st')) =
                   update_jar (cookies (session (self st))) (set_cookies resp)) \<and>
              (status_code resp = 401 \<longrightarrow>
                 res = Inl (Raised PermissionDenied
                             (py_or (extract_error_message resp)
                                    (PStr ''Permission denied / authentication required''))))))"
    by (simp add: Let_def)
qed

lemma demo_logged_out_simps:
  "base_url (self demo_logged_out) = ''http://host/api''"
  "session (self demo_logged_out) =
     \<lparr>headers = [(''Accept'', ''application/json''), (''User-Agent'', ''aen-client/0.1'')],
      auth = None, cookies = []\<rparr>"
  "server demo_logged_out = \<lparr>logged_in = False, tx = Idle\<rparr>"
  by (simp_all add: demo_logged_out_def logout_def session_request_def raise_unless_200_def
        Let_def demo_logged_in_simps demo_eval)

text \<open>Claim C8 against the demonstration server: login, logout, logout again.\<close>

theorem logout_discards_cookies_witness:
  "fst (logout demo_env demo_logged_in) = Inr PNone \<and>
   cookies (session (self demo_logged_in)) = [demo_cookie] \<and>
   cookies (session (self demo_logged_out)) = [] \<and>
   fst (logout demo_env demo_logged_out) =
     Inl (Raised PermissionDenied (PStr ''Permission denied / authentication required'')) \<and>
   req_cookies (fst (last (calls (snd (logout demo_env demo_logged_out))))) = [] \<and>
   cookies (session (self (snd (logout demo_env demo_logged_out)))) = []"
proof -
  let ?again = "logout demo_env demo_logged_out"
  have t1: "fst (transport demo_env (server demo_logged_in)
              (prepare_request demo_env demo_logged_in GET
                 (url_of demo_env demo_logged_in ''/user/logout'')
                 None None None None False)) = Inr (reply 200 [] None)"
    by (simp add: demo_logged_in_simps demo_eval)
  have t2: "fst (transport demo_env (server demo_logged_out)
              (prepare_request demo_env demo_logged_out GET
                 (url_of demo_env demo_logged_out ''/user/logout'')
                 None None None None False)) = Inr (reply 401 [] None)"
    by (simp add: demo_logged_out_simps demo_eval)
  have first: "fst (logout demo_env demo_logged_in) = Inr PNone \<and>
               cookies (session (self demo_logged_out)) = []"
    using logout_discards_cookies[where env = demo_env and st = demo_logged_in
            and res = "fst (logout demo_env demo_logged_in)" and st' = demo_logged_out] t1
    by (simp add: Let_def demo_logged_out_def reply_def)
  have second: "fst ?again =
       Inl (Raised PermissionDenied (PStr ''Permission denied / authentication required'')) \<and>
     req_cookies (fst (last (calls (snd ?again)))) = [] \<and>
     cookies (session (self (snd ?again))) = []"
    using logout_discards_cookies[where env = demo_env and st = demo_logged_out
            and res = "fst ?again" and st' = "snd ?again"] t2 first
    by (simp add: Let_def reply_def extract_error_message_def py_or_def)
  from first second show ?thesis by (simp add: demo_logged_in_simps)
qed

lemma no_content_logged_in_simps:
  "base_url (self no_content_logged_in) = ''http://host/api''"
  "session (self no_content_logged_in) =
     \<lparr>headers = [(''Accept'', ''application/json''), (''User-Agent'', ''aen-client/0.1'')],
      auth = None, cookies = [demo_cookie]\<rparr>"
  by (simp_all add: no_content_logged_in_def no_content_env_def no_content_server_def
        login_def or_str_def opt_str_def py_and_def Let_def run_defs double_defs
        cookies_for_def lower_def lower_char_def)

text \<open>
  Claim C8 as first stated has every success response clear the session. A 204 answer
  to \<^verbatim>\<open>logout\<close> is raised as an unclassified error, and the session cookie stays in the
  jar.
\<close>

theorem logout_204_counterexample:
  "cookies (session (self no_content_logged_in)) = [demo_cookie] \<and>
   fst (logout no_content_env no_content_logged_in) =
     Inl (Raised AenClientError (PStr ''HTTP 204: Unexpected error'')) \<and>
   cookies (session (self (snd (logout no_content_env no_content_logged_in)))) = [demo_cookie]"
  by (simp add: no_content_logged_in_simps logout_def Let_def session_request_def
        prepare_request_def cookies_for_def url_of_def build_url_def rstrip_slash_def
        lstrip_slash_def no_content_env_def no_content_server_def stub_env_def reply_def
        raise_unless_200_def classify_defs str_int_def
        nat_digits.simps[of 204] nat_digits.simps[of 20] nat_digits.simps[of 2])















lemma update_jar_nothing: "update_jar jar [] = jar"
  by simp

section \<open>Where the transaction state lives\<close>

text \<open>
  Claim C4, as amended. The client keeps no transaction state of its own; the state,
  \<open>Idle\<close> or \<open>Open\<close>, is the server's. Each of \<^verbatim>\<open>begin_transaction\<close>,
  \<^verbatim>\<open>commit_transaction\<close> and \<^verbatim>\<open>rollback_transaction\<close> always sends its PUT request,
  whatever happened before, and its outcome is decided by the answer alone: 200
  returns, 409 raises the \<^verbatim>\<open>ConflictError\<close> or \<^verbatim>\<open>TransactionError\<close> of the method,
  any other status raises a classified error. A protocol violation is thus reported
  (as an ordinary exception) exactly when the server answers it with an error status.
  The call changes nothing in the client instance except the cookies the answer sets,
  so the client is as usable after the call as before.
\<close>

theorem transaction_state_is_the_servers:
  "c \<in> {BeginTransaction, CommitTransaction, RollbackTransaction} \<and>
   run env c st = (res, st') \<longrightarrow>
     (\<exists>req out.
        calls st' = calls st @ [(req, out)] \<and> req_method req = PUT \<and>
        out = fst (transport env (server st) req) \<and>
        server st' = snd (transport env (server st) req) \<and>
        (case out of
           Inl x \<Rightarrow> res = Inl (RequestException x) \<and> self st' = self st
         | Inr resp \<Rightarrow>
             self st' = (self st)\<lparr>session := (session (self st))\<lparr>cookies :=
                          update_jar (cookies (session (self st))) (set_cookies resp)\<rparr>\<rparr> \<and>
             (set_cookies resp = [] \<longrightarrow> self st' = self st) \<and>
             (status_code resp = 200 \<longrightarrow> res = Inr PNone) \<and>
             (status_code resp = 409 \<longrightarrow>
                res = (if c = BeginTransaction then
                         Inl (Raised ConflictError
                               (PStr ''A transaction is already open. Commit or rollback first.''))
                       else if c = CommitTransaction then
                         Inl (Raised TransactionError (PStr ''No open transaction to commit.''))
                       else
                         Inl (Raised TransactionError
                               (PStr ''No open transaction to rollback.'')))) \<and>
             (status_code resp \<noteq> 200 \<longrightarrow> (\<exists>k m. res = Inl (Raised k m)))))"
proof (intro impI)
  assume a: "c \<in> {BeginTransaction, CommitTransaction, RollbackTransaction} \<and>
             run env c st = (res, st')"
  define path where "path = (if c = BeginTransaction then ''/session/transaction/begin''
      else if c = CommitTransaction then ''/session/transaction/commit''
      else ''/session/transaction/rollback'')"
  define h where "h = (\<lambda>resp.
      if status_code resp = 409 then
        (if c = BeginTransaction then
           Inl (Raised ConflictError
                 (PStr ''A transaction is already open. Commit or rollback first.''))
         else if c = CommitTransaction then
           Inl (Raised TransactionError (PStr ''No open transaction to commit.''))
         else Inl (Raised TransactionError (PStr ''No open transaction to rollback.'')))
      else then_return (raise_unless_200 env resp) PNone)"
  let ?req = "prepare_request env st PUT (url_of env st path) None None None None False"
  let ?run = "on_response (session_request env PUT (url_of env st path)
                 None None None None False st) h"
  let ?out = "fst (transport env (server st) ?req)"
  have shape: "run env c st = ?run"
    using a unfolding path_def h_def
    by (auto simp: begin_transaction_def commit_transaction_def rollback_transaction_def)
  with a have r: "?run = (res, st')" by simp
  have calls: "calls st' = calls st @ [(?req, ?out)]"
    using on_response_calls[of env PUT "url_of env st path" None None None None False st h] r
    by simp
  have srv: "server st' = snd (transport env (server st) ?req)"
    using on_response_server[of env PUT "url_of env st path" None None None None False st h] r
    by simp
  have slf: "self st' = (case ?out of
        Inl x \<Rightarrow> self st
      | Inr resp \<Rightarrow> (self st)\<lparr>session := (session (self st))\<lparr>cookies :=
                      update_jar (cookies (session (self st))) (set_cookies resp)\<rparr>\<rparr>)"
    using on_response_self[of env PUT "url_of env st path" None None None None False st h] r
    by simp
  have rs: "res = (case ?out of Inl x \<Rightarrow> Inl (RequestException x) | Inr resp \<Rightarrow> h resp)"
    using on_response_fst[of env PUT "url_of env st path" None None None None False st h] r
    by simp
  have hr: "(status_code resp = 200 \<longrightarrow> h resp = Inr PNone) \<and>
            (status_code resp = 409 \<longrightarrow>
                h resp = (if c = BeginTransaction then
                         Inl (Raised ConflictError
                               (PStr ''A transaction is already open. Commit or rollback first.''))
                       else if c = CommitTransaction then
                         Inl (Raised TransactionError (PStr ''No open transaction to commit.''))
                       else
                         Inl (Raised TransactionError
                               (PStr ''No open transaction to rollback.'')))) \<and>
            (status_code resp \<noteq> 200 \<longrightarrow> (\<exists>k m. h resp = Inl (Raised k m)))" for resp
    using raise_api_error_raises[of env resp]
    by (auto simp: h_def raise_unless_200_def then_return_def)
  have m: "req_method ?req = PUT" by (simp add: prepare_request_def)
  have body: "(case ?out of
           Inl x \<Rightarrow> res = Inl (RequestException x) \<and> self st' = self st
         | Inr resp \<Rightarrow>
             self st' = (self st)\<lparr>session := (session (self st))\<lparr>cookies :=
                          update_jar (cookies (session (self st))) (set_cookies resp)\<rparr>\<rparr> \<and>
             (set_cookies resp = [] \<longrightarrow> self st' = self st) \<and>
             (status_code resp = 200 \<longrightarrow> res = Inr PNone) \<and>
             (status_code resp = 409 \<longrightarrow>
                res = (if c = BeginTransaction then
                         Inl (Raised ConflictError
                               (PStr ''A transaction is already open. Commit or rollback first.''))
                       else if c = CommitTransaction then
                         Inl (Raised TransactionError (PStr ''No open transaction to commit.''))
                       else
                         Inl (Raised TransactionError
                               (PStr ''No open transaction to rollback.'')))) \<and>
             (status_code resp \<noteq> 200 \<longrightarrow> (\<exists>k m. res = Inl (Raised k m))))"
  proof (cases ?out)
    case (Inl x)
    with rs slf show ?thesis by simp
  next
    case (Inr resp)
    with rs slf hr[of resp] show ?thesis by simp
  qed
  from calls m srv body
  show "\<exists>req out.
        calls st' = calls st @ [(req, out)] \<and> req_method req = PUT \<and>
        out = fst (transport env (server st) req) \<and>
        server st' = snd (transport env (server st) req) \<and>
        (case out of
           Inl x \<Rightarrow> res = Inl (RequestException x) \<and> self st' = self st
         | Inr resp \<Rightarrow>
             self st' = (self st)\<lparr>session := (session (self st))\<lparr>cookies :=
                          update_jar (cookies (session (self st))) (set_cookies resp)\<rparr>\<rparr> \<and>
             (set_cookies resp = [] \<longrightarrow> self st' = self st) \<and>
             (status_code resp = 200 \<longrightarrow> res = Inr PNone) \<and>
             (status_code resp = 409 \<longrightarrow>
                res = (if c = BeginTransaction then
                         Inl (Raised ConflictError
                               (PStr ''A transaction is already open. Commit or rollback first.''))
                       else if c = CommitTransaction then
                         Inl (Raised TransactionError (PStr ''No open transaction to commit.''))
                       else
                         Inl (Raised TransactionError
                               (PStr ''No open transaction to rollback.'')))) \<and>
             (status_code resp \<noteq> 200 \<longrightarrow> (\<exists>k m. res = Inl (Raised k m))))"
    by blast
qed


text \<open>
  Claim C4 against the demonstration server, which keeps the state: a begin that
  opens the transaction, a second begin, and a commit without a transaction.
\<close>

theorem transaction_state_is_the_servers_witness:
  "fst (begin_transaction demo_env demo_logged_in) = Inr PNone \<and>
   self demo_open = self demo_logged_in \<and>
   tx (server demo_logged_in) = Idle \<and> tx (server demo_open) = Open \<and>
   fst (begin_transaction demo_env demo_open) =
     Inl (Raised ConflictError
           (PStr ''A transaction is already open. Commit or rollback first.'')) \<and>
   self (snd (begin_transaction demo_env demo_open)) = self demo_open \<and>
   fst (commit_transaction demo_env demo_logged_in) =
     Inl (Raised TransactionError (PStr ''No open transaction to commit.'')) \<and>
   self (snd (commit_transaction demo_env demo_logged_in)) = self demo_logged_in"
proof -
  have use: "fst (run demo_env c st) = r \<and> self (snd (run demo_env c st)) = self st"
    if c: "c \<in> {BeginTransaction, CommitTransaction, RollbackTransaction}"
      and l: "snd (last (calls (snd (run demo_env c st)))) = Inr (reply code [] None)"
      and r: "code = 200 \<and> r = Inr PNone \<or>
              code = 409 \<and> r = (if c = BeginTransaction then
                         Inl (Raised ConflictError
                               (PStr ''A transaction is already open. Commit or rollback first.''))
                       else if c = CommitTransaction then
                         Inl (Raised TransactionError (PStr ''No open transaction to commit.''))
                       else
                         Inl (Raised TransactionError
                               (PStr ''No open transaction to rollback.'')))"
    for c st code r
  proof -
    let ?res = "fst (run demo_env c st)" and ?st' = "snd (run demo_env c st)"
    from transaction_state_is_the_servers[where c = c and env = demo_env and st = st
           and res = ?res and st' = ?st'] c
    obtain req out where
      calls: "calls ?st' = calls st @ [(req, out)]" and
      body: "(case out of
           Inl x \<Rightarrow> ?res = Inl (RequestException x) \<and> self ?st' = self st
         | Inr resp \<Rightarrow>
             self ?st' = (self st)\<lparr>session := (session (self st))\<lparr>cookies :=
                          update_jar (cookies (session (self st))) (set_cookies resp)\<rparr>\<rparr> \<and>
             (set_cookies resp = [] \<longrightarrow> self ?st' = self st) \<and>
             (status_code resp = 200 \<longrightarrow> ?res = Inr PNone) \<and>
             (status_code resp = 409 \<longrightarrow>
                ?res = (if c = BeginTransaction then
                         Inl (Raised ConflictError
                               (PStr ''A transaction is already open. Commit or rollback first.''))
                       else if c = CommitTransaction then
                         Inl (Raised TransactionError (PStr ''No open transaction to commit.''))
                       else
                         Inl (Raised TransactionError
                               (PStr ''No open transaction to rollback.'')))) \<and>
             (status_code resp \<noteq> 200 \<longrightarrow> (\<exists>k m. ?res = Inl (Raised k m))))"
      by auto
    from calls l have "out = Inr (reply code [] None)" by simp
    with body r show ?thesis by (auto simp: reply_def)
  qed
  have b1: "fst (begin_transaction demo_env demo_logged_in) = Inr PNone \<and>
            self demo_open = self demo_logged_in"
    using use[of BeginTransaction demo_logged_in 200 "Inr PNone"] demo_begin_idle
    by (simp add: demo_open_def)
  have b2: "fst (begin_transaction demo_env demo_open) =
     Inl (Raised ConflictError
           (PStr ''A transaction is already open. Commit or rollback first.'')) \<and>
     self (snd (begin_transaction demo_env demo_open)) = self demo_open"
    using use[of BeginTransaction demo_open 409] demo_begin_open
    by simp
  have c1: "fst (commit_transaction demo_env demo_logged_in) =
     Inl (Raised TransactionError (PStr ''No open transaction to commit.'')) \<and>
     self (snd (commit_transaction demo_env demo_logged_in)) = self demo_logged_in"
    using use[of CommitTransaction demo_logged_in 409] demo_commit_idle
    by simp
  from b1 b2 c1 show ?thesis
    by (simp add: demo_logged_in_simps demo_open_simps)
qed

text \<open>
  Claim C4 as first stated has the client hold the state and report a begin after a
  begin, or a commit or rollback before any begin. In front of a server that answers
  200, the client instance after a successful begin equals the instance before, a
  second begin returns, and commit and rollback on a new client return.
\<close>

theorem no_local_transaction_state_counterexample:
  "fst (begin_transaction (stub_env (always (reply 200 [] None)))
          (fresh (stub_env (always (reply 200 [] None))) None None ())) = Inr PNone \<and>
   self (snd (begin_transaction (stub_env (always (reply 200 [] None)))
          (fresh (stub_env (always (reply 200 [] None))) None None ()))) =
     self (fresh (stub_env (always (reply 200 [] None))) None None ()) \<and>
   fst (begin_transaction (stub_env (always (reply 200 [] None)))
          (snd (begin_transaction (stub_env (always (reply 200 [] None)))
             (fresh (stub_env (always (reply 200 [] None))) None None ())))) = Inr PNone \<and>
   fst (commit_transaction (stub_env (always (reply 200 [] None)))
          (fresh (stub_env (always (reply 200 [] None))) None None ())) = Inr PNone \<and>
   fst (rollback_transaction (stub_env (always (reply 200 [] None)))
          (fresh (stub_env (always (reply 200 [] None))) None None ())) = Inr PNone"
  by (simp add: begin_transaction_def commit_transaction_def rollback_transaction_def
        run_defs double_defs Let_def)

section \<open>Every answer is surfaced\<close>

















text \<open>
  For the record, the other branch of the handler in \<^verbatim>\<open>list_files\<close>: a failure status
  other than 405 is caught as well, and the method returns \<^verbatim>\<open>None\<close>.
\<close>

lemma list_files_500_returns_None:
  "fst (list_files (stub_env (always (reply 500 [] None))) ''A1''
         (fresh (stub_env (always (reply 500 [] None))) None None ())) = Inr PNone"
  by (simp add: list_files_def json_or_error_def run_defs double_defs classify_defs Let_def)

end
